theory Spec2Isabelle
  imports Complex_Main
begin

section \<open>Python values and the library calls the connectors rely on\<close>

text \<open>
  The connectors read credential records and HTTP response bodies that are plain
  JSON-shaped Python values. A character is a code point below 256; a JSON number is an
  unbounded integer or a float: a finite one (seen as the rational it denotes), an
  infinity (\<open>JInf True\<close> is the negative one) or NaN, which Python's decoder accepts as
  \<open>Infinity\<close>, \<open>-Infinity\<close>, \<open>NaN\<close> or an exponent out of range. A Python dict is an
  association list whose first binding of a key is the one \<open>get\<close> returns; Python's
  \<open>None\<close> is \<open>JNull\<close>.
\<close>

datatype json =
    JNull
  | JBool bool
  | JInt int
  | JFloat rat
  | JInf bool
  | JNaN
  | JStr string
  | JArr "json list"
  | JObj "(string \<times> json) list"

text \<open>The exceptions of the model. \<open>RequestException\<close> and its subclasses never appear
  here as a result: the only places that raise them are inside a \<open>try\<close> that catches them.\<close>

datatype exn =
    RuntimeError string
  | AttributeError
  | ValueError
  | TypeError
  | OverflowError
  | RecursionError

text \<open>Python truthiness, as used by \<open>or\<close>, \<open>and\<close>, \<open>not\<close> and \<open>if\<close>.\<close>

fun truthy :: "json \<Rightarrow> bool" where
  "truthy JNull = False"
| "truthy (JBool b) = b"
| "truthy (JInt n) = (n \<noteq> 0)"
| "truthy (JFloat q) = (q \<noteq> 0)"
| "truthy (JInf negative) = True"
| "truthy JNaN = True"
| "truthy (JStr s) = (s \<noteq> [])"
| "truthy (JArr xs) = (xs \<noteq> [])"
| "truthy (JObj kv) = (kv \<noteq> [])"

definition py_or :: "json \<Rightarrow> json \<Rightarrow> json" where
  "py_or a b = (if truthy a then a else b)"

text \<open>\<open>d.get(k)\<close> and \<open>d.get(k, default)\<close> on a dict.\<close>

definition dict_get :: "(string \<times> json) list \<Rightarrow> string \<Rightarrow> json" where
  "dict_get kv k = (case map_of kv k of None \<Rightarrow> JNull | Some v \<Rightarrow> v)"

definition dict_get_default :: "(string \<times> json) list \<Rightarrow> string \<Rightarrow> json \<Rightarrow> json" where
  "dict_get_default kv k d = (case map_of kv k of None \<Rightarrow> d | Some v \<Rightarrow> v)"

text \<open>\<open>x.get(k)\<close> on an arbitrary value: only a dict has the method.\<close>

definition py_get :: "json \<Rightarrow> string \<Rightarrow> exn + json" where
  "py_get x k = (case x of JObj kv \<Rightarrow> Inr (dict_get kv k) | _ \<Rightarrow> Inl AttributeError)"

definition py_get_default :: "json \<Rightarrow> string \<Rightarrow> json \<Rightarrow> exn + json" where
  "py_get_default x k d =
     (case x of JObj kv \<Rightarrow> Inr (dict_get_default kv k d) | _ \<Rightarrow> Inl AttributeError)"

text \<open>\<open>str.strip()\<close> removes the white space of \<open>str.isspace\<close> from both ends;
  \<open>str.rstrip("/")\<close> removes trailing slashes.\<close>

definition is_space :: "char \<Rightarrow> bool" where
  "is_space c =
     (let n = (of_char c :: nat)
      in (9 \<le> n \<and> n \<le> 13) \<or> (28 \<le> n \<and> n \<le> 32) \<or> n = 133 \<or> n = 160)"

definition strip :: "string \<Rightarrow> string" where
  "strip s = rev (dropWhile is_space (rev (dropWhile is_space s)))"

definition rstrip_slash :: "string \<Rightarrow> string" where
  "rstrip_slash s = rev (dropWhile (\<lambda>c. c = CHR ''/'') (rev s))"

text \<open>\<open>(v or "").strip()\<close>: a falsy value becomes the empty string; a truthy value that
  is not a string has no \<open>strip\<close>.\<close>

definition or_empty_strip :: "json \<Rightarrow> exn + string" where
  "or_empty_strip v =
     (if \<not> truthy v then Inr []
      else (case v of JStr s \<Rightarrow> Inr (strip s) | _ \<Rightarrow> Inl AttributeError))"

text \<open>An attribute that is \<open>None\<close> or a string: \<open>x or ""\<close> and \<open>bool(x)\<close>.\<close>

definition str_or_empty :: "string option \<Rightarrow> string" where
  "str_or_empty x = (case x of None \<Rightarrow> [] | Some s \<Rightarrow> s)"

definition str_truthy :: "string option \<Rightarrow> bool" where
  "str_truthy x = (str_or_empty x \<noteq> [])"

text \<open>\<open>int(x)\<close>. Around the number, \<open>int\<close> skips the white space of \<open>str.isspace\<close> except
  the four separators 28 to 31. The number may carry one sign and then consists of
  decimal digits with single underscores between digits; more than 4300 digits are
  refused. A finite float is truncated towards zero; an infinity and NaN are refused.\<close>

definition is_int_space :: "char \<Rightarrow> bool" where
  "is_int_space c =
     (let n = (of_char c :: nat)
      in (9 \<le> n \<and> n \<le> 13) \<or> n = 32 \<or> n = 133 \<or> n = 160)"

definition is_digit :: "char \<Rightarrow> bool" where
  "is_digit c = (48 \<le> (of_char c :: nat) \<and> (of_char c :: nat) \<le> 57)"

fun parse_digits :: "string \<Rightarrow> bool \<Rightarrow> nat \<Rightarrow> nat option" where
  "parse_digits [] prev acc = (if prev then Some acc else None)"
| "parse_digits (c # cs) prev acc =
     (if is_digit c then parse_digits cs True (10 * acc + (of_char c - 48))
      else if c = CHR ''_'' \<and> prev then parse_digits cs False acc
      else None)"

definition int_of_str :: "string \<Rightarrow> exn + int" where
  "int_of_str s =
     (let t = rev (dropWhile is_int_space (rev (dropWhile is_int_space s)));
          neg = (case t of [] \<Rightarrow> False | c # _ \<Rightarrow> c = CHR ''-'');
          ds = (case t of [] \<Rightarrow> []
                | c # r \<Rightarrow> if c = CHR ''-'' \<or> c = CHR ''+'' then r else t)
      in if length (filter is_digit ds) > 4300 then Inl ValueError
         else (case parse_digits ds False 0 of
                 None \<Rightarrow> Inl ValueError
               | Some n \<Rightarrow> Inr (if neg then - int n else int n)))"

fun py_int :: "json \<Rightarrow> exn + int" where
  "py_int JNull = Inl TypeError"
| "py_int (JBool b) = Inr (if b then 1 else 0)"
| "py_int (JInt n) = Inr n"
| "py_int (JFloat q) = Inr (if 0 \<le> q then \<lfloor>q\<rfloor> else \<lceil>q\<rceil>)"
| "py_int (JInf negative) = Inl OverflowError"
| "py_int JNaN = Inl ValueError"
| "py_int (JStr s) = int_of_str s"
| "py_int (JArr xs) = Inl TypeError"
| "py_int (JObj kv) = Inl TypeError"

section \<open>The outside world: credential store, environment, HTTP\<close>

text \<open>
  A credential record of the store, and the store read as a function of
  (credential id, tool name, tenant id). A record whose \<open>credential_data\<close> is missing or
  empty has the empty list there.
\<close>

record credential =
  credential_type :: string
  credential_data :: "(string \<times> json) list"
  encrypted :: bool

type_synonym db = "string \<Rightarrow> string \<Rightarrow> string option \<Rightarrow> credential option"

type_synonym environ = "string \<Rightarrow> string option"

text \<open>A call of \<open>requests.get\<close> or \<open>requests.post\<close> with the arguments the connectors pass.\<close>

record request =
  rq_method :: string
  rq_url :: string
  rq_params :: "(string \<times> json) list"
  rq_headers :: "(string \<times> string) list"
  rq_data :: "(string \<times> string) list"
  rq_json :: "json option"
  rq_timeout :: nat

text \<open>
  Reading a body as JSON, \<open>resp.json()\<close>, has three outcomes: the decoded value; a
  \<open>JSONDecodeError\<close>, with its text, which is a \<open>RequestException\<close> in the releases of
  requests that run under the Python the source needs (it imports \<open>datetime.UTC\<close>); or
  another exception that the decoder lets through and that is no \<open>RequestException\<close>
  (\<open>ValueError\<close> for an integer of more than 4300 digits, \<open>RecursionError\<close> for a body
  nested too deep). The same three outcomes describe a whole fetch: a value, a
  \<open>RequestException\<close> that the \<open>try\<close> catches, or an exception that it does not catch.
\<close>

datatype json_outcome = Value json | Caught string | Uncaught exn

text \<open>
  What a call of requests gives back. Either the call itself raises a \<open>RequestException\<close>
  (connection failure, timeout; the text is \<open>str(e)\<close>), or there is a response: its
  status code, the text of the \<open>HTTPError\<close> that \<open>raise_for_status\<close> raises for it, and
  what \<open>resp.json()\<close> gives.
\<close>

record response =
  status_code :: nat
  http_error :: string
  json_result :: json_outcome

datatype http_outcome = Raises string | Responds response

type_synonym http = "request \<Rightarrow> http_outcome"

text \<open>\<open>raise_for_status\<close> raises for the codes 400 to 599.\<close>

definition raise_for_status :: "response \<Rightarrow> string option" where
  "raise_for_status r =
     (if 400 \<le> status_code r \<and> status_code r < 600 then Some (http_error r) else None)"

text \<open>The effects a call has on the outside world, in the order they happen.\<close>

datatype event =
    DbGet string string "string option"
  | DbSave string string "string option" credential
  | EnvGet string
  | Http request

section \<open>Home Assistant connector\<close>

record connector =
  credential_id :: string
  tenant_id :: "string option"
  configured :: bool

record ha_connector = connector +
  base_url :: "string option"
  token :: "string option"
  access_token :: "string option"
  refresh_token :: "string option"
  client_id :: "string option"
  client_secret :: "string option"
  token_url :: "string option"
  expires_at :: json

definition ha_TOOL_NAME :: string where
  "ha_TOOL_NAME = ''home_assistant''"

text \<open>\<open>_save_tokens\<close>: nothing is written without a tenant.\<close>

definition save_tokens :: "ha_connector \<Rightarrow> event list" where
  "save_tokens c =
     (if \<not> str_truthy (tenant_id c) then []
      else [DbSave (credential_id c) ha_TOOL_NAME (tenant_id c)
              \<lparr>credential_type = ''oauth2'',
               credential_data =
                 [(''base_url'', JStr (str_or_empty (base_url c))),
                  (''token'', JStr (str_or_empty (token c))),
                  (''access_token'', JStr (str_or_empty (access_token c))),
                  (''refresh_token'', JStr (str_or_empty (refresh_token c))),
                  (''client_id'', JStr (str_or_empty (client_id c))),
                  (''client_secret'', JStr (str_or_empty (client_secret c))),
                  (''token_url'', JStr (str_or_empty (token_url c))),
                  (''expires_at'', expires_at c)],
               encrypted = False\<rparr>])"

definition refresh_request :: "ha_connector \<Rightarrow> request" where
  "refresh_request c =
     \<lparr>rq_method = ''POST'',
      rq_url = str_or_empty (token_url c),
      rq_params = [],
      rq_headers = [(''Content-Type'', ''application/x-www-form-urlencoded'')],
      rq_data =
        [(''grant_type'', ''refresh_token''),
         (''refresh_token'', str_or_empty (refresh_token c)),
         (''client_id'', str_or_empty (client_id c))]
        @ (if str_truthy (client_secret c)
           then [(''client_secret'', str_or_empty (client_secret c))] else []),
      rq_json = None,
      rq_timeout = 20\<rparr>"

text \<open>Sequencing of steps that may raise: the first exception ends the computation.\<close>

definition bind_exn :: "exn + 'a \<Rightarrow> ('a \<Rightarrow> exn + 'b) \<Rightarrow> exn + 'b" where
  "bind_exn r f = (case r of Inl e \<Rightarrow> Inl e | Inr x \<Rightarrow> f x)"

text \<open>
  The body of the \<open>try\<close> of \<open>_refresh_access_token\<close> after a response with status 200
  whose body decoded to \<open>d\<close>; \<open>now\<close> is the clock read there. The three reads come
  before the three updates, so an exception leaves the connector as it was.
\<close>

definition apply_refresh :: "int \<Rightarrow> json \<Rightarrow> ha_connector \<Rightarrow> exn + ha_connector" where
  "apply_refresh now d c =
     bind_exn (py_get d ''access_token'') (\<lambda>a.
     bind_exn (or_empty_strip a) (\<lambda>new_access.
     bind_exn (py_get d ''refresh_token'') (\<lambda>r.
     bind_exn (or_empty_strip r) (\<lambda>new_refresh.
     bind_exn (py_get d ''expires_in'') (\<lambda>x.
     bind_exn (py_int (py_or x (JInt 0))) (\<lambda>expires_in.
       let c1 = (if new_access \<noteq> [] then c\<lparr>access_token := Some new_access\<rparr> else c);
           c2 = (if new_refresh \<noteq> [] then c1\<lparr>refresh_token := Some new_refresh\<rparr> else c1);
           c3 = (if expires_in \<noteq> 0 then c2\<lparr>expires_at := JInt (now + expires_in)\<rparr> else c2)
       in Inr c3))))))"

text \<open>The default of \<open>token_url\<close>, set when a refresh is attempted without one.\<close>

definition with_token_url :: "ha_connector \<Rightarrow> ha_connector" where
  "with_token_url c =
     (if \<not> str_truthy (token_url c)
      then c\<lparr>token_url := Some (str_or_empty (base_url c) @ ''/auth/token'')\<rparr>
      else c)"

text \<open>
  \<open>_refresh_access_token\<close>. The result is the exception that leaves the call, if any, the
  connector afterwards and the effects.
\<close>

definition refresh_access_token ::
  "http \<Rightarrow> int \<Rightarrow> ha_connector \<Rightarrow> exn option \<times> ha_connector \<times> event list" where
  "refresh_access_token post now c =
     (if \<not> str_truthy (refresh_token c) then (None, c, [])
      else if \<not> str_truthy (token_url c) \<and> \<not> str_truthy (base_url c) then (None, c, [])
      else
        let c0 = with_token_url c;
            rq = refresh_request c0
        in (case post rq of
              Raises msg \<Rightarrow> (None, c0, [Http rq])
            | Responds resp \<Rightarrow>
                if status_code resp \<noteq> 200 then (None, c0, [Http rq])
                else (case json_result resp of
                        Caught msg \<Rightarrow> (None, c0, [Http rq])
                      | Uncaught e \<Rightarrow> (Some e, c0, [Http rq])
                      | Value d \<Rightarrow>
                          (case apply_refresh now d c0 of
                             Inl e \<Rightarrow> (Some e, c0, [Http rq])
                           | Inr c' \<Rightarrow> (None, c', Http rq # save_tokens c')))))"

text \<open>\<open>_auth_header\<close>; \<open>now_ts\<close> is the clock read here, \<open>now\<close> the one read by the refresh.\<close>

definition bearer :: "ha_connector \<Rightarrow> (string \<times> string) list" where
  "bearer c =
     (let t = (if str_truthy (token c) then token c else access_token c)
      in if \<not> str_truthy t then []
         else [(''Authorization'', ''Bearer '' @ str_or_empty t)])"

definition auth_header ::
  "http \<Rightarrow> int \<Rightarrow> int \<Rightarrow> ha_connector
     \<Rightarrow> (exn + (string \<times> string) list) \<times> ha_connector \<times> event list" where
  "auth_header post now_ts now c =
     (if truthy (expires_at c) \<and> str_truthy (access_token c) then
        (case py_int (expires_at c) of
           Inl e \<Rightarrow> (Inl e, c, [])
         | Inr ea \<Rightarrow>
             if now_ts \<ge> ea - 60 then
               (case refresh_access_token post now c of
                  (Some e, c', ev) \<Rightarrow> (Inl e, c', ev)
                | (None, c', ev) \<Rightarrow> (Inr (bearer c'), c', ev))
             else (Inr (bearer c), c, []))
      else (Inr (bearer c), c, []))"

text \<open>\<open>_validate_configured\<close>.\<close>

definition validate_configured :: "ha_connector \<Rightarrow> string option" where
  "validate_configured c =
     (if \<not> str_truthy (base_url c) then Some ''Home Assistant base_url missing''
      else if \<not> (str_truthy (token c) \<or> str_truthy (access_token c) \<or> str_truthy (refresh_token c))
      then Some ''Home Assistant token missing''
      else None)"

text \<open>
  \<open>_load_credentials\<close> of the Home Assistant connector, on the freshly initialised object;
  \<open>strict\<close> is \<open>config.CREDENTIALS_STRICT\<close>. First the part after the store branch: the
  strict-mode error, or the two environment variables.
\<close>

definition ha_missing :: string where
  "ha_missing = ''Home Assistant credentials missing. Set via credentials API or env vars in dev.''"

definition ha_load_fallback ::
  "bool \<Rightarrow> environ \<Rightarrow> ha_connector \<Rightarrow> (exn + ha_connector) \<times> event list" where
  "ha_load_fallback strict env c =
     (if strict then (Inl (RuntimeError ha_missing), [])
      else
        (let url = rstrip_slash (strip (str_or_empty (env ''HOME_ASSISTANT_BASE_URL'')));
             tok = strip (str_or_empty (env ''HOME_ASSISTANT_TOKEN''))
         in (Inr (c\<lparr>base_url := Some url, token := Some tok,
                     configured := (url \<noteq> [] \<and> tok \<noteq> [])\<rparr>),
             [EnvGet ''HOME_ASSISTANT_BASE_URL'', EnvGet ''HOME_ASSISTANT_TOKEN''])))"

text \<open>The store branch: a record with credential data decides the outcome alone, the
  function returns from this branch whatever the fields hold.\<close>

definition ha_load_record :: "(string \<times> json) list \<Rightarrow> ha_connector \<Rightarrow> exn + ha_connector" where
  "ha_load_record d c =
     bind_exn (or_empty_strip (dict_get d ''base_url'')) (\<lambda>v_url.
     bind_exn (or_empty_strip (dict_get d ''token'')) (\<lambda>v_token.
     bind_exn (or_empty_strip (dict_get d ''access_token'')) (\<lambda>v_access.
     bind_exn (or_empty_strip (dict_get d ''refresh_token'')) (\<lambda>v_refresh.
     bind_exn (or_empty_strip (dict_get d ''client_id'')) (\<lambda>v_id.
     bind_exn (or_empty_strip (dict_get d ''client_secret'')) (\<lambda>v_secret.
     bind_exn (or_empty_strip (dict_get d ''token_url'')) (\<lambda>v_token_url.
       let url = (if v_url \<noteq> [] then rstrip_slash v_url else v_url)
       in Inr (c\<lparr>base_url := Some url, token := Some v_token,
                 access_token := Some v_access, refresh_token := Some v_refresh,
                 client_id := Some v_id, client_secret := Some v_secret,
                 token_url := Some v_token_url,
                 expires_at := dict_get d ''expires_at'',
                 configured :=
                   (url \<noteq> [] \<and> (v_token \<noteq> [] \<or> v_access \<noteq> [] \<or> v_refresh \<noteq> []))\<rparr>))))))))"

definition ha_load_credentials ::
  "bool \<Rightarrow> db \<Rightarrow> environ \<Rightarrow> ha_connector \<Rightarrow> (exn + ha_connector) \<times> event list" where
  "ha_load_credentials strict db env c =
     (let ev = [DbGet (credential_id c) ha_TOOL_NAME (tenant_id c)];
          fallback = (case ha_load_fallback strict env c of (r, ev') \<Rightarrow> (r, ev @ ev'))
      in (case db (credential_id c) ha_TOOL_NAME (tenant_id c) of
            None \<Rightarrow> fallback
          | Some r \<Rightarrow>
              if credential_data r \<noteq> [] then (ha_load_record (credential_data r) c, ev)
              else fallback))"

text \<open>\<open>HomeAssistantConnector(credential_id, tenant_id)\<close>.\<close>

definition HomeAssistantConnector ::
  "bool \<Rightarrow> db \<Rightarrow> environ \<Rightarrow> string \<Rightarrow> string option \<Rightarrow> (exn + ha_connector) \<times> event list" where
  "HomeAssistantConnector strict db env cid tenant =
     ha_load_credentials strict db env
       \<lparr>credential_id = cid, tenant_id = tenant, configured = False,
        base_url = None, token = None, access_token = None, refresh_token = None,
        client_id = None, client_secret = None, token_url = None, expires_at = JNull\<rparr>"

subsection \<open>Business operations\<close>

text \<open>The result envelope is a Python dict; failure envelopes carry \<open>success\<close> and \<open>error\<close>
  first and then the operation's extra fields.\<close>

type_synonym envelope = "(string \<times> json) list"

definition failure :: "string \<Rightarrow> envelope \<Rightarrow> envelope" where
  "failure msg extra = [(''success'', JBool False), (''error'', JStr msg)] @ extra"

definition success :: "envelope \<Rightarrow> envelope" where
  "success kv = (''success'', JBool True) # kv"

text \<open>The three statements every \<open>try\<close> block starts with: the request,
  \<open>raise_for_status\<close> and \<open>json()\<close>. \<open>Caught\<close> carries the text of the \<open>RequestException\<close>
  that the \<open>except\<close> clause catches; \<open>Uncaught\<close> is an exception it does not catch.\<close>

definition fetch_json :: "http \<Rightarrow> request \<Rightarrow> json_outcome" where
  "fetch_json http rq =
     (case http rq of
        Raises msg \<Rightarrow> Caught msg
      | Responds r \<Rightarrow>
          (case raise_for_status r of Some msg \<Rightarrow> Caught msg | None \<Rightarrow> json_result r))"

definition get_request :: "string \<Rightarrow> (string \<times> json) list \<Rightarrow> (string \<times> string) list \<Rightarrow> request" where
  "get_request u ps hs =
     \<lparr>rq_method = ''GET'', rq_url = u, rq_params = ps, rq_headers = hs, rq_data = [],
      rq_json = None, rq_timeout = 20\<rparr>"

text \<open>Iterating a value with \<open>for\<close>: a list gives its items, a string its characters, a dict
  its keys; nothing else is iterable.\<close>

definition py_iter :: "json \<Rightarrow> exn + json list" where
  "py_iter x =
     (case x of
        JArr xs \<Rightarrow> Inr xs
      | JStr s \<Rightarrow> Inr (map (\<lambda>c. JStr [c]) s)
      | JObj kv \<Rightarrow> Inr (map (\<lambda>p. JStr (fst p)) kv)
      | _ \<Rightarrow> Inl TypeError)"

text \<open>The body of the loop of \<open>list_entities\<close>, for one entry.\<close>

definition domain_of :: "json \<Rightarrow> exn + json" where
  "domain_of entity_id =
     (if truthy entity_id then
        (case entity_id of
           JStr s \<Rightarrow> Inr (JStr (takeWhile (\<lambda>c. c \<noteq> CHR ''.'') s))
         | _ \<Rightarrow> Inl AttributeError)
      else Inr JNull)"

definition entity_of :: "json \<Rightarrow> exn + json" where
  "entity_of entry =
     bind_exn (py_get entry ''entity_id'') (\<lambda>entity_id.
     bind_exn (py_get entry ''attributes'') (\<lambda>a.
     bind_exn (py_get entry ''state'') (\<lambda>st.
     bind_exn (py_get (py_or a (JObj [])) ''friendly_name'') (\<lambda>friendly.
     bind_exn (domain_of entity_id) (\<lambda>dom.
       Inr (JObj [(''entity_id'', entity_id), (''state'', st),
                  (''name'', py_or friendly entity_id), (''domain'', dom)]))))))"

fun entities_of :: "json list \<Rightarrow> exn + json list" where
  "entities_of [] = Inr []"
| "entities_of (entry # rest) =
     bind_exn (entity_of entry) (\<lambda>e.
     bind_exn (entities_of rest) (\<lambda>es. Inr (e # es)))"

definition no_state_change ::
  "envelope \<Rightarrow> ha_connector \<Rightarrow> (exn + envelope) \<times> ha_connector \<times> event list" where
  "no_state_change env c = (Inr env, c, [])"

definition list_entities ::
  "http \<Rightarrow> int \<Rightarrow> int \<Rightarrow> ha_connector \<Rightarrow> (exn + envelope) \<times> ha_connector \<times> event list" where
  "list_entities http now_ts now c =
     (case validate_configured c of
        Some err \<Rightarrow> no_state_change (failure err []) c
      | None \<Rightarrow>
          (case auth_header http now_ts now c of
             (Inl e, c', ev) \<Rightarrow> (Inl e, c', ev)
           | (Inr hdr, c', ev) \<Rightarrow>
               let rq = get_request (str_or_empty (base_url c) @ ''/api/states'') [] hdr
               in (case fetch_json http rq of
                     Uncaught e \<Rightarrow> (Inl e, c', ev @ [Http rq])
                   | Caught msg \<Rightarrow> (Inr (failure msg []), c', ev @ [Http rq])
                   | Value d \<Rightarrow>
                       (case bind_exn (py_iter (py_or d (JArr []))) entities_of of
                          Inl e \<Rightarrow> (Inl e, c', ev @ [Http rq])
                        | Inr es \<Rightarrow>
                            (Inr (success [(''entities'', JArr es)]), c', ev @ [Http rq])))))"

definition get_state ::
  "http \<Rightarrow> int \<Rightarrow> int \<Rightarrow> ha_connector \<Rightarrow> string option
     \<Rightarrow> (exn + envelope) \<times> ha_connector \<times> event list" where
  "get_state http now_ts now c entity_id =
     (case validate_configured c of
        Some err \<Rightarrow> no_state_change (failure err []) c
      | None \<Rightarrow>
          if strip (str_or_empty entity_id) = []
          then no_state_change (failure ''entity_id is required'' []) c
          else
            (case auth_header http now_ts now c of
               (Inl e, c', ev) \<Rightarrow> (Inl e, c', ev)
             | (Inr hdr, c', ev) \<Rightarrow>
                 let rq = get_request
                            (str_or_empty (base_url c) @ ''/api/states/'' @ str_or_empty entity_id)
                            [] hdr
                 in (case fetch_json http rq of
                       Uncaught e \<Rightarrow> (Inl e, c', ev @ [Http rq])
                     | Caught msg \<Rightarrow>
                         (Inr (failure msg [(''entity_id'', JStr (str_or_empty entity_id))]),
                          c', ev @ [Http rq])
                     | Value d \<Rightarrow> (Inr (success [(''state'', d)]), c', ev @ [Http rq]))))"

text \<open>\<open>payload.setdefault("entity_id", entity_id)\<close>.\<close>

definition setdefault :: "(string \<times> json) list \<Rightarrow> string \<Rightarrow> json \<Rightarrow> (string \<times> json) list" where
  "setdefault kv k v = (case map_of kv k of None \<Rightarrow> kv @ [(k, v)] | Some _ \<Rightarrow> kv)"

text \<open>The request of \<open>call_service\<close>: the authorisation headers and the content type, and
  the payload as the JSON body.\<close>

definition service_request ::
  "string \<Rightarrow> (string \<times> string) list \<Rightarrow> (string \<times> json) list \<Rightarrow> request" where
  "service_request u hdr payload =
     \<lparr>rq_method = ''POST'', rq_url = u, rq_params = [],
      rq_headers = hdr @ [(''Content-Type'', ''application/json'')],
      rq_data = [], rq_json = Some (JObj payload), rq_timeout = 20\<rparr>"

definition call_service ::
  "http \<Rightarrow> int \<Rightarrow> int \<Rightarrow> ha_connector \<Rightarrow> string option \<Rightarrow> string option \<Rightarrow> string option
     \<Rightarrow> (string \<times> json) list option
     \<Rightarrow> (exn + envelope) \<times> ha_connector \<times> event list" where
  "call_service http now_ts now c domain service entity_id service_data =
     (case validate_configured c of
        Some err \<Rightarrow> no_state_change (failure err []) c
      | None \<Rightarrow>
          if strip (str_or_empty domain) = []
          then no_state_change (failure ''domain is required'' []) c
          else if strip (str_or_empty service) = []
          then no_state_change (failure ''service is required'' []) c
          else
            let payload0 = (case service_data of None \<Rightarrow> [] | Some kv \<Rightarrow> kv);
                payload = (if str_truthy entity_id
                           then setdefault payload0 ''entity_id'' (JStr (str_or_empty entity_id))
                           else payload0)
            in (case auth_header http now_ts now c of
                  (Inl e, c', ev) \<Rightarrow> (Inl e, c', ev)
                | (Inr hdr, c', ev) \<Rightarrow>
                    let rq = service_request
                               (str_or_empty (base_url c) @ ''/api/services/''
                                  @ str_or_empty domain @ ''/'' @ str_or_empty service)
                               hdr payload
                    in (case fetch_json http rq of
                          Uncaught e \<Rightarrow> (Inl e, c', ev @ [Http rq])
                        | Caught msg \<Rightarrow> (Inr (failure msg []), c', ev @ [Http rq])
                        | Value d \<Rightarrow> (Inr (success [(''result'', d)]), c', ev @ [Http rq]))))"

section \<open>The API-key connectors: FMP, NewsAPI, Gemini, Polygon\<close>

record api_key_connector = connector +
  api_key :: "string option"

text \<open>
  \<open>os.getenv(A) or os.getenv(B) or ""\<close>: the variables are read in order until one is
  set to a non-empty value.
\<close>

fun getenv_first :: "environ \<Rightarrow> string list \<Rightarrow> string \<times> event list" where
  "getenv_first env [] = ([], [])"
| "getenv_first env (n # ns) =
     (if str_truthy (env n) then (str_or_empty (env n), [EnvGet n])
      else (case getenv_first env ns of (v, ev) \<Rightarrow> (v, EnvGet n # ev)))"

text \<open>
  \<open>_load_credentials\<close> of the four connectors is the same text up to the tool name, the
  message of the strict-mode error and the environment variables, which are the
  parameters here. A stored key that is empty after stripping falls through to the
  strict-mode check.
\<close>

definition load_api_key ::
  "string \<Rightarrow> string \<Rightarrow> string list \<Rightarrow> bool \<Rightarrow> db \<Rightarrow> environ \<Rightarrow> api_key_connector
     \<Rightarrow> (exn + api_key_connector) \<times> event list" where
  "load_api_key tool missing vars strict db env c =
     (let ev = [DbGet (credential_id c) tool (tenant_id c)];
          stored =
            (case db (credential_id c) tool (tenant_id c) of
               None \<Rightarrow> Inr []
             | Some r \<Rightarrow>
                 if credential_data r \<noteq> []
                 then or_empty_strip (py_or (dict_get (credential_data r) ''api_key'')
                                            (dict_get (credential_data r) ''key''))
                 else Inr [])
      in (case stored of
            Inl e \<Rightarrow> (Inl e, ev)
          | Inr k \<Rightarrow>
              if k \<noteq> [] then (Inr (c\<lparr>api_key := Some k, configured := True\<rparr>), ev)
              else if strict then (Inl (RuntimeError missing), ev)
              else (case getenv_first env vars of
                      (v, ev') \<Rightarrow>
                        (Inr (c\<lparr>api_key := Some (strip v), configured := (strip v \<noteq> [])\<rparr>),
                         ev @ ev'))))"

definition new_connector :: "string \<Rightarrow> string option \<Rightarrow> api_key_connector" where
  "new_connector cid tenant =
     \<lparr>credential_id = cid, tenant_id = tenant, configured = False, api_key = None\<rparr>"

definition fmp_missing :: string where
  "fmp_missing = ''FMP API key missing. Set via credentials API or FMP_API_KEY in dev.''"

definition newsapi_missing :: string where
  "newsapi_missing = ''NewsAPI key missing. Set via credentials API or NEWSAPI_KEY in dev.''"

definition gemini_missing :: string where
  "gemini_missing = ''Gemini API key missing. Set via credentials API or GEMINI_API_KEY in dev.''"

definition polygon_missing :: string where
  "polygon_missing = ''Polygon API key missing. Set via credentials API or POLYGON_API_KEY in dev.''"

definition FmpConnector ::
  "bool \<Rightarrow> db \<Rightarrow> environ \<Rightarrow> string \<Rightarrow> string option \<Rightarrow> (exn + api_key_connector) \<times> event list" where
  "FmpConnector strict db env cid tenant =
     load_api_key ''fmp'' fmp_missing [''FMP_API_KEY''] strict db env (new_connector cid tenant)"

definition NewsApiConnector ::
  "bool \<Rightarrow> db \<Rightarrow> environ \<Rightarrow> string \<Rightarrow> string option \<Rightarrow> (exn + api_key_connector) \<times> event list" where
  "NewsApiConnector strict db env cid tenant =
     load_api_key ''newsapi'' newsapi_missing [''NEWSAPI_KEY''] strict db env
       (new_connector cid tenant)"

definition GeminiConnector ::
  "bool \<Rightarrow> db \<Rightarrow> environ \<Rightarrow> string \<Rightarrow> string option \<Rightarrow> (exn + api_key_connector) \<times> event list" where
  "GeminiConnector strict db env cid tenant =
     load_api_key ''gemini'' gemini_missing [''GEMINI_API_KEY'', ''GOOGLE_API_KEY''] strict db env
       (new_connector cid tenant)"

definition PolygonConnector ::
  "bool \<Rightarrow> db \<Rightarrow> environ \<Rightarrow> string \<Rightarrow> string option \<Rightarrow> (exn + api_key_connector) \<times> event list" where
  "PolygonConnector strict db env cid tenant =
     load_api_key ''polygon'' polygon_missing [''POLYGON_API_KEY''] strict db env
       (new_connector cid tenant)"

text \<open>The guard every operation starts with: \<open>not self.configured or not self.api_key\<close>.\<close>

definition unusable :: "api_key_connector \<Rightarrow> bool" where
  "unusable c = (\<not> configured c \<or> \<not> str_truthy (api_key c))"

text \<open>\<open>x or d\<close> for an integer argument that may be \<open>None\<close>, and the two clamps.\<close>

definition int_or :: "int option \<Rightarrow> int \<Rightarrow> int" where
  "int_or x d = (case x of None \<Rightarrow> d | Some n \<Rightarrow> if n = 0 then d else n)"

text \<open>\<open>str.upper()\<close>: the letters below 256, and the sharp s, which becomes two letters.
  The two characters whose capital lies beyond 255 (181 and 255) are left as they are.\<close>

definition upper_char :: "char \<Rightarrow> string" where
  "upper_char c =
     (let n = (of_char c :: nat)
      in if (97 \<le> n \<and> n \<le> 122) \<or> (224 \<le> n \<and> n \<le> 254 \<and> n \<noteq> 247) then [char_of (n - 32)]
         else if n = 223 then ''SS''
         else [c])"

definition upper :: "string \<Rightarrow> string" where
  "upper s = concat (map upper_char s)"

subsection \<open>FMP\<close>

definition fmp_BASE_URL :: string where
  "fmp_BASE_URL = ''https://financialmodelingprep.com/api/v3''"

definition fmp_not_configured :: string where
  "fmp_not_configured = ''FMP connector not configured (missing API key)''"

definition quote ::
  "http \<Rightarrow> api_key_connector \<Rightarrow> string option \<Rightarrow> (exn + envelope) \<times> event list" where
  "quote http c symbol =
     (if unusable c then (Inr (failure fmp_not_configured []), [])
      else if strip (str_or_empty symbol) = [] then (Inr (failure ''symbol is required'' []), [])
      else
        let sym = upper (str_or_empty symbol);
            rq = get_request (fmp_BASE_URL @ ''/quote/'' @ sym)
                   [(''apikey'', JStr (str_or_empty (api_key c)))] []
        in (case fetch_json http rq of
              Uncaught e \<Rightarrow> (Inl e, [Http rq])
            | Caught msg \<Rightarrow> (Inr (failure msg [(''symbol'', JStr sym)]), [Http rq])
            | Value d \<Rightarrow> (Inr (success [(''symbol'', JStr sym), (''results'', d)]), [Http rq])))"

definition stock_news ::
  "http \<Rightarrow> api_key_connector \<Rightarrow> string option \<Rightarrow> int option
     \<Rightarrow> (exn + envelope) \<times> event list" where
  "stock_news http c tickers limit =
     (if unusable c then (Inr (failure fmp_not_configured []), [])
      else if strip (str_or_empty tickers) = [] then (Inr (failure ''tickers is required'' []), [])
      else
        let rq = get_request (fmp_BASE_URL @ ''/stock_news'')
                   [(''tickers'', JStr (str_or_empty tickers)),
                    (''limit'', JInt (max 1 (min 50 (int_or limit 10)))),
                    (''apikey'', JStr (str_or_empty (api_key c)))] []
        in (case fetch_json http rq of
              Uncaught e \<Rightarrow> (Inl e, [Http rq])
            | Caught msg \<Rightarrow>
                (Inr (failure msg [(''tickers'', JStr (str_or_empty tickers))]), [Http rq])
            | Value d \<Rightarrow>
                (Inr (success [(''tickers'', JStr (str_or_empty tickers)), (''results'', d)]),
                 [Http rq])))"

subsection \<open>NewsAPI\<close>

definition newsapi_BASE_URL :: string where
  "newsapi_BASE_URL = ''https://newsapi.org/v2''"

definition newsapi_not_configured :: string where
  "newsapi_not_configured = ''NewsAPI connector not configured (missing API key)''"

definition search ::
  "http \<Rightarrow> api_key_connector \<Rightarrow> string option \<Rightarrow> string \<Rightarrow> string \<Rightarrow> int option
     \<Rightarrow> (exn + envelope) \<times> event list" where
  "search http c q language sort_by page_size =
     (if unusable c then (Inr (failure newsapi_not_configured []), [])
      else if strip (str_or_empty q) = [] then (Inr (failure ''q is required'' []), [])
      else
        let rq = get_request (newsapi_BASE_URL @ ''/everything'')
                   [(''q'', JStr (str_or_empty q)),
                    (''language'', JStr language),
                    (''sortBy'', JStr sort_by),
                    (''pageSize'', JInt (max 1 (min 100 (int_or page_size 20)))),
                    (''apiKey'', JStr (str_or_empty (api_key c)))] []
        in (case fetch_json http rq of
              Uncaught e \<Rightarrow> (Inl e, [Http rq])
            | Caught msg \<Rightarrow> (Inr (failure msg [(''query'', JStr (str_or_empty q))]), [Http rq])
            | Value d \<Rightarrow>
                (case py_get_default d ''articles'' (JArr []) of
                   Inl e \<Rightarrow> (Inl e, [Http rq])
                 | Inr arts \<Rightarrow>
                     (Inr (success [(''query'', JStr (str_or_empty q)), (''results'', arts)]),
                      [Http rq]))))"

definition top_headlines ::
  "http \<Rightarrow> api_key_connector \<Rightarrow> string \<Rightarrow> string option \<Rightarrow> string option \<Rightarrow> int option
     \<Rightarrow> (exn + envelope) \<times> event list" where
  "top_headlines http c country category q page_size =
     (if unusable c then (Inr (failure newsapi_not_configured []), [])
      else
        let rq = get_request (newsapi_BASE_URL @ ''/top-headlines'')
                   ([(''country'', JStr country),
                     (''pageSize'', JInt (max 1 (min 100 (int_or page_size 20)))),
                     (''apiKey'', JStr (str_or_empty (api_key c)))]
                    @ (if str_truthy category
                       then [(''category'', JStr (str_or_empty category))] else [])
                    @ (if str_truthy q then [(''q'', JStr (str_or_empty q))] else [])) []
        in (case fetch_json http rq of
              Uncaught e \<Rightarrow> (Inl e, [Http rq])
            | Caught msg \<Rightarrow> (Inr (failure msg []), [Http rq])
            | Value d \<Rightarrow>
                (case py_get_default d ''articles'' (JArr []) of
                   Inl e \<Rightarrow> (Inl e, [Http rq])
                 | Inr arts \<Rightarrow> (Inr (success [(''results'', arts)]), [Http rq]))))"

subsection \<open>Gemini\<close>

definition GENERATIVE_BASE_URL :: string where
  "GENERATIVE_BASE_URL = ''https://generativelanguage.googleapis.com/v1beta''"

definition IMAGE_MODEL :: string where
  "IMAGE_MODEL = ''imagen-3.0-generate-001''"

definition TTS_BASE_URL :: string where
  "TTS_BASE_URL = ''https://texttospeech.googleapis.com/v1''"

definition gemini_not_configured :: string where
  "gemini_not_configured = ''Gemini connector not configured (missing API key)''"

definition post_json :: "string \<Rightarrow> (string \<times> json) list \<Rightarrow> json \<Rightarrow> request" where
  "post_json u ps body =
     \<lparr>rq_method = ''POST'', rq_url = u, rq_params = ps, rq_headers = [], rq_data = [],
      rq_json = Some body, rq_timeout = 30\<rparr>"

text \<open>The loop of \<open>generate_image\<close> over the generated images.\<close>

fun collect_images :: "json list \<Rightarrow> exn + json list" where
  "collect_images [] = Inr []"
| "collect_images (item # rest) =
     bind_exn (py_get item ''bytesBase64Encoded'') (\<lambda>b64.
     bind_exn (collect_images rest) (\<lambda>images.
       Inr (if truthy b64 then b64 # images else images)))"

definition generate_image ::
  "http \<Rightarrow> api_key_connector \<Rightarrow> string option \<Rightarrow> int option \<Rightarrow> string
     \<Rightarrow> (exn + envelope) \<times> event list" where
  "generate_image http c prompt sample_count output_mime_type =
     (if unusable c then (Inr (failure gemini_not_configured []), [])
      else if strip (str_or_empty prompt) = [] then (Inr (failure ''prompt is required'' []), [])
      else
        let n = min 4 (max 1 (int_or sample_count 1));
            rq = post_json
                   (GENERATIVE_BASE_URL @ ''/models/'' @ IMAGE_MODEL @ '':generateImages'')
                   [(''key'', JStr (str_or_empty (api_key c)))]
                   (JObj [(''prompt'', JObj [(''text'', JStr (str_or_empty prompt))]),
                          (''imageParameters'',
                           JObj [(''sampleCount'', JInt n),
                                 (''outputMimeType'', JStr output_mime_type)])])
        in (case fetch_json http rq of
              Uncaught e \<Rightarrow> (Inl e, [Http rq])
            | Caught msg \<Rightarrow> (Inr (failure msg []), [Http rq])
            | Value d \<Rightarrow>
                (case bind_exn (py_get_default d ''generatedImages'' (JArr [])) (\<lambda>g.
                      bind_exn (py_iter (py_or g (JArr []))) collect_images) of
                   Inl e \<Rightarrow> (Inl e, [Http rq])
                 | Inr images \<Rightarrow>
                     (Inr (success [(''prompt'', JStr (str_or_empty prompt)),
                                    (''images'', JArr images),
                                    (''count'', JInt (int (length images))),
                                    (''output_mime_type'', JStr output_mime_type)]),
                      [Http rq]))))"

definition text_to_speech ::
  "http \<Rightarrow> api_key_connector \<Rightarrow> string option \<Rightarrow> string \<Rightarrow> string \<Rightarrow> string \<Rightarrow> rat \<Rightarrow> rat
     \<Rightarrow> (exn + envelope) \<times> event list" where
  "text_to_speech http c text language_code voice_name audio_encoding speaking_rate pitch =
     (if unusable c then (Inr (failure gemini_not_configured []), [])
      else if strip (str_or_empty text) = [] then (Inr (failure ''text is required'' []), [])
      else
        let rq = post_json (TTS_BASE_URL @ ''/text:synthesize'')
                   [(''key'', JStr (str_or_empty (api_key c)))]
                   (JObj [(''input'', JObj [(''text'', JStr (str_or_empty text))]),
                          (''voice'', JObj [(''languageCode'', JStr language_code),
                                            (''name'', JStr voice_name)]),
                          (''audioConfig'',
                           JObj [(''audioEncoding'', JStr audio_encoding),
                                 (''speakingRate'', JFloat speaking_rate),
                                 (''pitch'', JFloat pitch)])])
        in (case fetch_json http rq of
              Uncaught e \<Rightarrow> (Inl e, [Http rq])
            | Caught msg \<Rightarrow> (Inr (failure msg []), [Http rq])
            | Value d \<Rightarrow>
                (case py_get d ''audioContent'' of
                   Inl e \<Rightarrow> (Inl e, [Http rq])
                 | Inr audio \<Rightarrow>
                     (Inr (success [(''audio_content'', audio),
                                    (''audio_encoding'', JStr audio_encoding),
                                    (''voice_name'', JStr voice_name),
                                    (''language_code'', JStr language_code)]),
                      [Http rq]))))"

subsection \<open>Polygon\<close>

definition polygon_BASE_URL :: string where
  "polygon_BASE_URL = ''https://api.polygon.io''"

definition polygon_not_configured :: string where
  "polygon_not_configured = ''Polygon connector not configured (missing API key)''"

definition prev_close ::
  "http \<Rightarrow> api_key_connector \<Rightarrow> string option \<Rightarrow> bool \<Rightarrow> (exn + envelope) \<times> event list" where
  "prev_close http c ticker adjusted =
     (if unusable c then (Inr (failure polygon_not_configured []), [])
      else if strip (str_or_empty ticker) = [] then (Inr (failure ''ticker is required'' []), [])
      else
        let tk = upper (str_or_empty ticker);
            rq = get_request (polygon_BASE_URL @ ''/v2/aggs/ticker/'' @ tk @ ''/prev'')
                   [(''adjusted'', JStr (if adjusted then ''true'' else ''false'')),
                    (''apiKey'', JStr (str_or_empty (api_key c)))] []
        in (case fetch_json http rq of
              Uncaught e \<Rightarrow> (Inl e, [Http rq])
            | Caught msg \<Rightarrow> (Inr (failure msg [(''ticker'', JStr tk)]), [Http rq])
            | Value d \<Rightarrow>
                (case py_get_default d ''results'' (JArr []) of
                   Inl e \<Rightarrow> (Inl e, [Http rq])
                 | Inr res \<Rightarrow>
                     (Inr (success [(''ticker'', JStr tk), (''results'', res)]), [Http rq]))))"

definition ticker_details ::
  "http \<Rightarrow> api_key_connector \<Rightarrow> string option \<Rightarrow> (exn + envelope) \<times> event list" where
  "ticker_details http c ticker =
     (if unusable c then (Inr (failure polygon_not_configured []), [])
      else if strip (str_or_empty ticker) = [] then (Inr (failure ''ticker is required'' []), [])
      else
        let tk = upper (str_or_empty ticker);
            rq = get_request (polygon_BASE_URL @ ''/v3/reference/tickers/'' @ tk)
                   [(''apiKey'', JStr (str_or_empty (api_key c)))] []
        in (case fetch_json http rq of
              Uncaught e \<Rightarrow> (Inl e, [Http rq])
            | Caught msg \<Rightarrow> (Inr (failure msg [(''ticker'', JStr tk)]), [Http rq])
            | Value d \<Rightarrow>
                (case py_get_default d ''results'' (JObj []) of
                   Inl e \<Rightarrow> (Inl e, [Http rq])
                 | Inr res \<Rightarrow>
                     (Inr (success [(''ticker'', JStr tk), (''result'', res)]), [Http rq]))))"

text \<open>Observers of the effect log.\<close>

fun is_save :: "event \<Rightarrow> bool" where
  "is_save (DbSave _ _ _ _) = True"
| "is_save _ = False"

fun is_http :: "event \<Rightarrow> bool" where
  "is_http (Http _) = True"
| "is_http _ = False"

section \<open>Conditions and sample inputs used in the statements\<close>

text \<open>A refresh is attempted when there is a refresh token and an endpoint to send it to.\<close>

definition refresh_possible :: "ha_connector \<Rightarrow> bool" where
  "refresh_possible c =
     (str_truthy (refresh_token c) \<and> (str_truthy (token_url c) \<or> str_truthy (base_url c)))"

text \<open>The token endpoint fails: the call raises, or the status is not 200.\<close>

definition refresh_fails :: "http \<Rightarrow> ha_connector \<Rightarrow> bool" where
  "refresh_fails post c =
     (case post (refresh_request (with_token_url c)) of
        Raises msg \<Rightarrow> True
      | Responds r \<Rightarrow> status_code r \<noteq> 200)"

text \<open>The token endpoint answers 200 with the JSON object \<open>kv\<close>.\<close>

definition refresh_answers :: "http \<Rightarrow> ha_connector \<Rightarrow> (string \<times> json) list \<Rightarrow> bool" where
  "refresh_answers post c kv =
     (case post (refresh_request (with_token_url c)) of
        Raises msg \<Rightarrow> False
      | Responds r \<Rightarrow> status_code r = 200 \<and> json_result r = Value (JObj kv))"

text \<open>An outside world that gives the same outcome to every request, and a response with
  status 200 and a JSON body.\<close>

definition always :: "http_outcome \<Rightarrow> http" where
  "always out = (\<lambda>rq. out)"

definition ok_response :: "json \<Rightarrow> http_outcome" where
  "ok_response d = Responds \<lparr>status_code = 200, http_error = [], json_result = Value d\<rparr>"

definition status_response :: "nat \<Rightarrow> string \<Rightarrow> http_outcome" where
  "status_response n msg = Responds \<lparr>status_code = n, http_error = msg, json_result = Caught []\<rparr>"

text \<open>A Home Assistant connector holding an OAuth2 token pair that expires at second 100;
  the same without a tenant; the same with only the refresh token.\<close>

definition ha_oauth :: ha_connector where
  "ha_oauth =
     \<lparr>credential_id = ''home_assistant'', tenant_id = Some ''acme'', configured = True,
      base_url = Some ''http://ha.local:8123'', token = Some [], access_token = Some ''a0'',
      refresh_token = Some ''r0'', client_id = Some ''cid'', client_secret = Some [],
      token_url = Some [], expires_at = JInt 100\<rparr>"

definition ha_no_tenant :: ha_connector where
  "ha_no_tenant = ha_oauth\<lparr>tenant_id := None\<rparr>"

definition ha_refresh_only :: ha_connector where
  "ha_refresh_only = ha_oauth\<lparr>access_token := Some []\<rparr>"

text \<open>Two bodies of the token endpoint: one that only rotates the refresh token, one
  with a new access token.\<close>

definition rotation_body :: "(string \<times> json) list" where
  "rotation_body = [(''refresh_token'', JStr ''r1''), (''expires_in'', JInt 3600)]"

definition token_body :: "(string \<times> json) list" where
  "token_body = [(''access_token'', JStr ''a1''), (''expires_in'', JInt 3600)]"

text \<open>A secret field that holds nothing usable: absent, falsy, or white space only.\<close>

definition blank :: "json \<Rightarrow> bool" where
  "blank v = (case v of JStr s \<Rightarrow> strip s = [] | _ \<Rightarrow> \<not> truthy v)"

text \<open>A field that is a string when it is there at all.\<close>

definition text_or_absent :: "json \<Rightarrow> bool" where
  "text_or_absent v = (case v of JStr s \<Rightarrow> True | _ \<Rightarrow> \<not> truthy v)"

text \<open>The store holds no record, or one without credential data.\<close>

definition no_record :: "credential option \<Rightarrow> bool" where
  "no_record cred = (case cred of None \<Rightarrow> True | Some r \<Rightarrow> credential_data r = [])"

text \<open>No usable record for an API-key connector: no record, or neither \<open>api_key\<close> nor \<open>key\<close>
  holds a usable value.\<close>

definition no_usable_api_key :: "credential option \<Rightarrow> bool" where
  "no_usable_api_key cred =
     (case cred of
        None \<Rightarrow> True
      | Some r \<Rightarrow>
          credential_data r = []
          \<or> (blank (dict_get (credential_data r) ''api_key'')
              \<and> blank (dict_get (credential_data r) ''key'')))"

text \<open>No usable record for the Home Assistant connector: no record, or one whose three
  token fields hold nothing usable (and whose other text fields are text).\<close>

definition ha_no_usable_record :: "credential option \<Rightarrow> bool" where
  "ha_no_usable_record cred =
     (case cred of
        None \<Rightarrow> True
      | Some r \<Rightarrow>
          credential_data r = []
          \<or> (blank (dict_get (credential_data r) ''token'')
              \<and> blank (dict_get (credential_data r) ''access_token'')
              \<and> blank (dict_get (credential_data r) ''refresh_token'')
              \<and> text_or_absent (dict_get (credential_data r) ''base_url'')
              \<and> text_or_absent (dict_get (credential_data r) ''client_id'')
              \<and> text_or_absent (dict_get (credential_data r) ''client_secret'')
              \<and> text_or_absent (dict_get (credential_data r) ''token_url'')))"

text \<open>A store that holds one record, for one tool, and an empty environment.\<close>

definition store_of :: "string \<Rightarrow> (string \<times> json) list \<Rightarrow> db" where
  "store_of tool d =
     (\<lambda>cid t tenant.
        if t = tool
        then Some \<lparr>credential_type = ''api_key'', credential_data = d, encrypted = False\<rparr>
        else None)"

definition no_env :: environ where
  "no_env = (\<lambda>name. None)"

text \<open>A Home Assistant record that holds the address and no token.\<close>

definition url_only :: "(string \<times> json) list" where
  "url_only = [(''base_url'', JStr ''http://ha.local:8123'')]"

text \<open>The clamp in the words of its description: a falsy input is replaced by the default,
  then the value is brought into the range.\<close>

definition clamp_count :: "int \<Rightarrow> int \<Rightarrow> int \<Rightarrow> int option \<Rightarrow> int" where
  "clamp_count lo hi dflt x =
     (let v = (case x of None \<Rightarrow> dflt | Some n \<Rightarrow> if n = 0 then dflt else n)
      in if v < lo then lo else if hi < v then hi else v)"

text \<open>A connector that holds a key.\<close>

definition keyed :: api_key_connector where
  "keyed = \<lparr>credential_id = ''c1'', tenant_id = None, configured = True, api_key = Some ''k1''\<rparr>"












text \<open>The two reads that follow the read of \<open>access_token\<close> in \<open>_refresh_access_token\<close>, in
  their order: the stripped \<open>refresh_token\<close> and the converted \<open>expires_in\<close>, or the
  exception that the first failing read raises.\<close>

definition read_rotation :: "(string \<times> json) list \<Rightarrow> exn + string \<times> int" where
  "read_rotation kv =
     bind_exn (or_empty_strip (dict_get kv ''refresh_token'')) (\<lambda>nr.
     bind_exn (py_int (py_or (dict_get kv ''expires_in'') (JInt 0))) (\<lambda>ei. Inr (nr, ei)))"

text \<open>Two bodies whose \<open>expires_in\<close> is text that \<open>int\<close> refuses.\<close>

definition rotation_unreadable :: "(string \<times> json) list" where
  "rotation_unreadable = [(''refresh_token'', JStr ''r1''), (''expires_in'', JStr ''soon'')]"

definition token_unreadable :: "(string \<times> json) list" where
  "token_unreadable = [(''access_token'', JStr ''a1''), (''expires_in'', JStr ''soon'')]"

text \<open>A Home Assistant record without a token whose \<open>client_id\<close> is a number.\<close>

definition numeric_client :: "(string \<times> json) list" where
  "numeric_client = [(''base_url'', JStr ''http://ha.local:8123''), (''client_id'', JInt 12345)]"

section \<open>Token refresh\<close>

text \<open>
  C1. When the token endpoint answers with a status other than 200, or the request raises
  a network failure, \<open>_refresh_access_token\<close> returns normally, the connector is as
  before except for the default it may have put into \<open>token_url\<close> (so the access token,
  the refresh token and the expiry are unchanged), and nothing is saved to the store.
\<close>

theorem refresh_failure_keeps_state:
  assumes "refresh_fails post c"
  shows "\<exists>c' ev. refresh_access_token post now c = (None, c', ev)
           \<and> c' = c\<lparr>token_url := token_url c'\<rparr>
           \<and> access_token c' = access_token c
           \<and> refresh_token c' = refresh_token c
           \<and> expires_at c' = expires_at c
           \<and> filter is_save ev = []"
  using assms
  by (auto simp: refresh_access_token_def refresh_fails_def with_token_url_def Let_def
           split: http_outcome.splits)

theorem refresh_failure_keeps_state_witness:
  "refresh_fails (always (Raises ''timed out'')) ha_oauth
   \<and> refresh_fails (always (status_response 401 ''401 Client Error'')) ha_oauth
   \<and> (\<exists>c' ev. refresh_access_token (always (Raises ''timed out'')) 50 ha_oauth = (None, c', ev)
           \<and> c' = ha_oauth\<lparr>token_url := token_url c'\<rparr>
           \<and> access_token c' = access_token ha_oauth
           \<and> refresh_token c' = refresh_token ha_oauth
           \<and> expires_at c' = expires_at ha_oauth
           \<and> filter is_save ev = [])
   \<and> (\<exists>c' ev. refresh_access_token (always (status_response 401 ''401 Client Error'')) 50
                  ha_oauth = (None, c', ev)
           \<and> c' = ha_oauth\<lparr>token_url := token_url c'\<rparr>
           \<and> access_token c' = access_token ha_oauth
           \<and> refresh_token c' = refresh_token ha_oauth
           \<and> expires_at c' = expires_at ha_oauth
           \<and> filter is_save ev = [])"
proof -
  have a: "refresh_fails (always (Raises ''timed out'')) ha_oauth"
    by (simp add: refresh_fails_def always_def)
  have b: "refresh_fails (always (status_response 401 ''401 Client Error'')) ha_oauth"
    by (simp add: refresh_fails_def always_def status_response_def)
  show ?thesis
    using a b refresh_failure_keeps_state [OF a, of 50] refresh_failure_keeps_state [OF b, of 50]
    by blast
qed

lemma apply_refresh_obj:
  assumes "or_empty_strip (dict_get kv ''access_token'') = Inr na"
    and "or_empty_strip (dict_get kv ''refresh_token'') = Inr nr"
    and "py_int (py_or (dict_get kv ''expires_in'') (JInt 0)) = Inr ei"
  shows "apply_refresh now (JObj kv) c =
     Inr (c\<lparr>access_token := if na \<noteq> [] then Some na else access_token c,
             refresh_token := if nr \<noteq> [] then Some nr else refresh_token c,
             expires_at := if ei \<noteq> 0 then JInt (now + ei) else expires_at c\<rparr>)"
  using assms by (simp add: apply_refresh_def bind_exn_def py_get_def Let_def)

lemma with_token_url_fields:
  "access_token (with_token_url c) = access_token c"
  "refresh_token (with_token_url c) = refresh_token c"
  "expires_at (with_token_url c) = expires_at c"
  "tenant_id (with_token_url c) = tenant_id c"
  "credential_id (with_token_url c) = credential_id c"
  by (simp_all add: with_token_url_def)

lemma refresh_success:
  assumes "refresh_possible c" and "refresh_answers post c kv"
    and "or_empty_strip (dict_get kv ''access_token'') = Inr na"
    and "or_empty_strip (dict_get kv ''refresh_token'') = Inr nr"
    and "py_int (py_or (dict_get kv ''expires_in'') (JInt 0)) = Inr ei"
  shows "refresh_access_token post now c =
     (None,
      (with_token_url c)
         \<lparr>access_token := if na \<noteq> [] then Some na else access_token c,
          refresh_token := if nr \<noteq> [] then Some nr else refresh_token c,
          expires_at := if ei \<noteq> 0 then JInt (now + ei) else expires_at c\<rparr>,
      Http (refresh_request (with_token_url c)) #
      save_tokens ((with_token_url c)
         \<lparr>access_token := if na \<noteq> [] then Some na else access_token c,
          refresh_token := if nr \<noteq> [] then Some nr else refresh_token c,
          expires_at := if ei \<noteq> 0 then JInt (now + ei) else expires_at c\<rparr>))"
proof -
  from assms(2) obtain r where r: "post (refresh_request (with_token_url c)) = Responds r"
      "status_code r = 200" "json_result r = Value (JObj kv)"
    by (auto simp: refresh_answers_def split: http_outcome.splits)
  show ?thesis
    using assms(1) r apply_refresh_obj [OF assms(3-5), of now "with_token_url c"]
    by (auto simp: refresh_access_token_def refresh_possible_def Let_def with_token_url_fields)
qed

lemma keep_access_token:
  "(with_token_url c)\<lparr>access_token := access_token c, refresh_token := x, expires_at := y\<rparr>
   = (with_token_url c)\<lparr>refresh_token := x, expires_at := y\<rparr>"
  by (simp add: with_token_url_def)

lemma refresh_read_ok:
  assumes "refresh_possible c" and "refresh_answers post c kv"
    and "or_empty_strip (dict_get kv ''access_token'') = Inr na"
    and "read_rotation kv = Inr (nr, ei)"
  shows "refresh_access_token post now c =
     (None,
      (with_token_url c)
         \<lparr>access_token := if na \<noteq> [] then Some na else access_token c,
          refresh_token := if nr \<noteq> [] then Some nr else refresh_token c,
          expires_at := if ei \<noteq> 0 then JInt (now + ei) else expires_at c\<rparr>,
      Http (refresh_request (with_token_url c)) #
      save_tokens ((with_token_url c)
         \<lparr>access_token := if na \<noteq> [] then Some na else access_token c,
          refresh_token := if nr \<noteq> [] then Some nr else refresh_token c,
          expires_at := if ei \<noteq> 0 then JInt (now + ei) else expires_at c\<rparr>))"
proof -
  from assms(4) have "or_empty_strip (dict_get kv ''refresh_token'') = Inr nr"
      "py_int (py_or (dict_get kv ''expires_in'') (JInt 0)) = Inr ei"
    by (auto simp: read_rotation_def bind_exn_def split: sum.splits)
  then show ?thesis
    using refresh_success [OF assms(1-3), of nr ei now] by simp
qed

lemma refresh_read_raises:
  assumes "refresh_possible c" and "refresh_answers post c kv"
    and "or_empty_strip (dict_get kv ''access_token'') = Inr na"
    and "read_rotation kv = Inl e"
  shows "refresh_access_token post now c
         = (Some e, with_token_url c, [Http (refresh_request (with_token_url c))])"
proof -
  from assms(2) obtain r where r: "post (refresh_request (with_token_url c)) = Responds r"
      "status_code r = 200" "json_result r = Value (JObj kv)"
    by (auto simp: refresh_answers_def split: http_outcome.splits)
  from assms(3,4) have "apply_refresh now (JObj kv) (with_token_url c) = Inl e"
    by (auto simp: apply_refresh_def read_rotation_def bind_exn_def py_get_def split: sum.splits)
  with assms(1) r show ?thesis
    by (simp add: refresh_access_token_def refresh_possible_def Let_def)
qed

lemma saved_bundle:
  assumes "str_truthy (tenant_id c)"
  shows "\<exists>rec. save_tokens c = [DbSave (credential_id c) ha_TOOL_NAME (tenant_id c) rec]
           \<and> dict_get (credential_data rec) ''access_token'' = JStr (str_or_empty (access_token c))
           \<and> dict_get (credential_data rec) ''refresh_token''
                = JStr (str_or_empty (refresh_token c))
           \<and> dict_get (credential_data rec) ''expires_at'' = expires_at c"
  using assms by (simp add: save_tokens_def dict_get_def)

lemma unsaved_bundle: "\<not> str_truthy (tenant_id c) \<Longrightarrow> save_tokens c = []"
  by (simp add: save_tokens_def)

text \<open>
  C2, as amended. When the token endpoint answers 200 with a JSON object whose
  \<open>access_token\<close> is absent or empty, the access token is left unchanged. If the two
  reads that follow succeed (\<open>refresh_token\<close> is absent, falsy or text, and \<open>expires_in\<close>
  is absent, falsy or a value that \<open>int\<close> converts), the refresh token is replaced when
  the response carries a non-empty one, the expiry is recomputed when it carries a
  non-zero \<open>expires_in\<close>, so that the token state is unchanged only when the response
  carries neither, and the bundle is saved all the same: on a connector that has a
  tenant exactly one record is written to the store, holding the token state after the
  call; without a tenant nothing is written. If one of the two reads raises, the
  exception leaves the call, the token state is unchanged and nothing is saved.
\<close>

theorem refresh_without_access_token:
  assumes "refresh_possible c" and "refresh_answers post c kv"
    and "or_empty_strip (dict_get kv ''access_token'') = Inr []"
  shows "(\<forall>nr ei. read_rotation kv = Inr (nr, ei) \<longrightarrow>
            (\<exists>c' ev. refresh_access_token post now c = (None, c', ev)
               \<and> c' = (with_token_url c)
                         \<lparr>refresh_token := if nr \<noteq> [] then Some nr else refresh_token c,
                          expires_at := if ei \<noteq> 0 then JInt (now + ei) else expires_at c\<rparr>
               \<and> access_token c' = access_token c
               \<and> refresh_token c' = (if nr \<noteq> [] then Some nr else refresh_token c)
               \<and> expires_at c' = (if ei \<noteq> 0 then JInt (now + ei) else expires_at c)
               \<and> (nr = [] \<and> ei = 0 \<longrightarrow> c' = with_token_url c)
               \<and> (str_truthy (tenant_id c) \<longrightarrow>
                    (\<exists>rec. ev = [Http (refresh_request (with_token_url c)),
                                 DbSave (credential_id c) ha_TOOL_NAME (tenant_id c) rec]
                       \<and> dict_get (credential_data rec) ''access_token''
                            = JStr (str_or_empty (access_token c))
                       \<and> dict_get (credential_data rec) ''refresh_token''
                            = JStr (str_or_empty (refresh_token c'))
                       \<and> dict_get (credential_data rec) ''expires_at'' = expires_at c'))
               \<and> (\<not> str_truthy (tenant_id c) \<longrightarrow>
                    ev = [Http (refresh_request (with_token_url c))])))
       \<and> (\<forall>e. read_rotation kv = Inl e \<longrightarrow>
            refresh_access_token post now c
              = (Some e, with_token_url c, [Http (refresh_request (with_token_url c))]))"
proof (intro conjI allI impI)
  fix nr ei
  assume r: "read_rotation kv = Inr (nr, ei)"
  let ?c = "(with_token_url c)
              \<lparr>refresh_token := if nr \<noteq> [] then Some nr else refresh_token c,
               expires_at := if ei \<noteq> 0 then JInt (now + ei) else expires_at c\<rparr>"
  have f: "tenant_id ?c = tenant_id c" "credential_id ?c = credential_id c"
      "access_token ?c = access_token c"
    by (simp_all add: with_token_url_fields)
  have run: "refresh_access_token post now c
             = (None, ?c, Http (refresh_request (with_token_url c)) # save_tokens ?c)"
    using refresh_read_ok [OF assms r, of now] by (simp add: keep_access_token)
  have unchanged: "nr = [] \<and> ei = 0 \<longrightarrow> ?c = with_token_url c"
    by (simp add: with_token_url_def)
  have saved: "str_truthy (tenant_id c) \<longrightarrow>
      (\<exists>rec. Http (refresh_request (with_token_url c)) # save_tokens ?c
               = [Http (refresh_request (with_token_url c)),
                  DbSave (credential_id c) ha_TOOL_NAME (tenant_id c) rec]
         \<and> dict_get (credential_data rec) ''access_token''
              = JStr (str_or_empty (access_token c))
         \<and> dict_get (credential_data rec) ''refresh_token''
              = JStr (str_or_empty (refresh_token ?c))
         \<and> dict_get (credential_data rec) ''expires_at'' = expires_at ?c)"
    using saved_bundle [of ?c] unfolding f by auto
  have unsaved: "\<not> str_truthy (tenant_id c) \<longrightarrow>
      Http (refresh_request (with_token_url c)) # save_tokens ?c
        = [Http (refresh_request (with_token_url c))]"
    using unsaved_bundle [of ?c] unfolding f by simp
  show "\<exists>c' ev. refresh_access_token post now c = (None, c', ev)
               \<and> c' = (with_token_url c)
                         \<lparr>refresh_token := if nr \<noteq> [] then Some nr else refresh_token c,
                          expires_at := if ei \<noteq> 0 then JInt (now + ei) else expires_at c\<rparr>
               \<and> access_token c' = access_token c
               \<and> refresh_token c' = (if nr \<noteq> [] then Some nr else refresh_token c)
               \<and> expires_at c' = (if ei \<noteq> 0 then JInt (now + ei) else expires_at c)
               \<and> (nr = [] \<and> ei = 0 \<longrightarrow> c' = with_token_url c)
               \<and> (str_truthy (tenant_id c) \<longrightarrow>
                    (\<exists>rec. ev = [Http (refresh_request (with_token_url c)),
                                 DbSave (credential_id c) ha_TOOL_NAME (tenant_id c) rec]
                       \<and> dict_get (credential_data rec) ''access_token''
                            = JStr (str_or_empty (access_token c))
                       \<and> dict_get (credential_data rec) ''refresh_token''
                            = JStr (str_or_empty (refresh_token c'))
                       \<and> dict_get (credential_data rec) ''expires_at'' = expires_at c'))
               \<and> (\<not> str_truthy (tenant_id c) \<longrightarrow>
                    ev = [Http (refresh_request (with_token_url c))])"
    apply (rule exI [of _ ?c])
    apply (rule exI [of _ "Http (refresh_request (with_token_url c)) # save_tokens ?c"])
    using run unchanged saved unsaved by (simp add: f)
next
  fix e
  assume "read_rotation kv = Inl e"
  then show "refresh_access_token post now c
              = (Some e, with_token_url c, [Http (refresh_request (with_token_url c))])"
    using refresh_read_raises [OF assms] by simp
qed

text \<open>
  C2 as stated fails: a 200 response without \<open>access_token\<close> that rotates the refresh
  token changes the refresh token and the expiry, and the bundle is saved.
\<close>

theorem refresh_without_access_token_counterexample:
  "refresh_possible ha_oauth
   \<and> refresh_answers (always (ok_response (JObj rotation_body))) ha_oauth rotation_body
   \<and> map_of rotation_body ''access_token'' = None
   \<and> refresh_token ha_oauth = Some ''r0''
   \<and> expires_at ha_oauth = JInt 100
   \<and> refresh_token (fst (snd (refresh_access_token
        (always (ok_response (JObj rotation_body))) 50 ha_oauth))) = Some ''r1''
   \<and> expires_at (fst (snd (refresh_access_token
        (always (ok_response (JObj rotation_body))) 50 ha_oauth))) = JInt 3650
   \<and> length (filter is_save (snd (snd (refresh_access_token
        (always (ok_response (JObj rotation_body))) 50 ha_oauth)))) = 1"
  by code_simp

theorem refresh_without_access_token_witness:
  "refresh_possible ha_oauth
   \<and> refresh_answers (always (ok_response (JObj rotation_body))) ha_oauth rotation_body
   \<and> or_empty_strip (dict_get rotation_body ''access_token'') = Inr []
   \<and> read_rotation rotation_body = Inr (''r1'', 3600)
   \<and> str_truthy (tenant_id ha_oauth)
   \<and> (\<exists>c' rec. refresh_access_token (always (ok_response (JObj rotation_body))) 50 ha_oauth
          = (None, c', [Http (refresh_request (with_token_url ha_oauth)),
                        DbSave ''home_assistant'' ''home_assistant'' (Some ''acme'') rec])
        \<and> access_token c' = Some ''a0''
        \<and> refresh_token c' = Some ''r1''
        \<and> expires_at c' = JInt 3650
        \<and> dict_get (credential_data rec) ''access_token'' = JStr ''a0''
        \<and> dict_get (credential_data rec) ''refresh_token'' = JStr ''r1''
        \<and> dict_get (credential_data rec) ''expires_at'' = JInt 3650)
   \<and> refresh_answers (always (ok_response (JObj rotation_unreadable))) ha_oauth
         rotation_unreadable
   \<and> or_empty_strip (dict_get rotation_unreadable ''access_token'') = Inr []
   \<and> read_rotation rotation_unreadable = Inl ValueError
   \<and> refresh_access_token (always (ok_response (JObj rotation_unreadable))) 50 ha_oauth
        = (Some ValueError, with_token_url ha_oauth,
           [Http (refresh_request (with_token_url ha_oauth))])"
proof -
  have h1: "refresh_possible ha_oauth" by code_simp
  have h2: "refresh_answers (always (ok_response (JObj rotation_body))) ha_oauth rotation_body"
    by code_simp
  have h3: "or_empty_strip (dict_get rotation_body ''access_token'') = Inr []" by code_simp
  have h4: "read_rotation rotation_body = Inr (''r1'', 3600)" by code_simp
  have h5: "str_truthy (tenant_id ha_oauth)" by code_simp
  have g2: "refresh_answers (always (ok_response (JObj rotation_unreadable))) ha_oauth
              rotation_unreadable"
    by code_simp
  have g3: "or_empty_strip (dict_get rotation_unreadable ''access_token'') = Inr []"
    by code_simp
  have g4: "read_rotation rotation_unreadable = Inl ValueError" by code_simp
  have a: "access_token ha_oauth = Some ''a0''" "credential_id ha_oauth = ''home_assistant''"
    "tenant_id ha_oauth = Some ''acme''" "ha_TOOL_NAME = ''home_assistant''"
    by code_simp+
  have ok: "\<exists>c' rec. refresh_access_token (always (ok_response (JObj rotation_body))) 50 ha_oauth
          = (None, c', [Http (refresh_request (with_token_url ha_oauth)),
                        DbSave ''home_assistant'' ''home_assistant'' (Some ''acme'') rec])
        \<and> access_token c' = Some ''a0''
        \<and> refresh_token c' = Some ''r1''
        \<and> expires_at c' = JInt 3650
        \<and> dict_get (credential_data rec) ''access_token'' = JStr ''a0''
        \<and> dict_get (credential_data rec) ''refresh_token'' = JStr ''r1''
        \<and> dict_get (credential_data rec) ''expires_at'' = JInt 3650"
    using refresh_without_access_token [OF h1 h2 h3, of 50] h4 h5 a
    by (auto simp: str_or_empty_def)
  have bad: "refresh_access_token (always (ok_response (JObj rotation_unreadable))) 50 ha_oauth
        = (Some ValueError, with_token_url ha_oauth,
           [Http (refresh_request (with_token_url ha_oauth))])"
    using refresh_without_access_token [OF h1 g2 g3, of 50] g4 by blast
  show ?thesis using h1 h2 h3 h4 h5 g2 g3 g4 ok bad by blast
qed

text \<open>
  C3, as amended. After a 200 response that is a JSON object with a non-empty
  \<open>access_token\<close> (once stripped), if the two reads that follow succeed (\<open>refresh_token\<close>
  is absent, falsy or text, and \<open>expires_in\<close> is absent, falsy or a value that \<open>int\<close>
  converts), the access token becomes the stripped value, the refresh token the stripped
  value of the response when that is non-empty and the prior one otherwise, and the
  expiry the clock plus \<open>expires_in\<close> when that is non-zero and the prior expiry otherwise;
  on a connector that has a tenant exactly one record is saved, holding these three
  values, and on a connector without a tenant nothing is saved. If one of the two reads
  raises, the exception leaves the call, the token state is unchanged and nothing is
  saved.
\<close>

theorem refresh_success_persists:
  assumes "refresh_possible c" and "refresh_answers post c kv"
    and "or_empty_strip (dict_get kv ''access_token'') = Inr na" and "na \<noteq> []"
  shows "(\<forall>nr ei. read_rotation kv = Inr (nr, ei) \<longrightarrow>
            (\<exists>c' ev. refresh_access_token post now c = (None, c', ev)
               \<and> access_token c' = Some na
               \<and> refresh_token c' = (if nr \<noteq> [] then Some nr else refresh_token c)
               \<and> expires_at c' = (if ei \<noteq> 0 then JInt (now + ei) else expires_at c)
               \<and> (str_truthy (tenant_id c) \<longrightarrow>
                    (\<exists>rec. ev = [Http (refresh_request (with_token_url c)),
                                 DbSave (credential_id c) ha_TOOL_NAME (tenant_id c) rec]
                       \<and> dict_get (credential_data rec) ''access_token'' = JStr na
                       \<and> dict_get (credential_data rec) ''refresh_token''
                            = JStr (if nr \<noteq> [] then nr else str_or_empty (refresh_token c))
                       \<and> dict_get (credential_data rec) ''expires_at''
                            = (if ei \<noteq> 0 then JInt (now + ei) else expires_at c)))
               \<and> (\<not> str_truthy (tenant_id c) \<longrightarrow>
                    ev = [Http (refresh_request (with_token_url c))])))
       \<and> (\<forall>e. read_rotation kv = Inl e \<longrightarrow>
            refresh_access_token post now c
              = (Some e, with_token_url c, [Http (refresh_request (with_token_url c))]))"
proof (intro conjI allI impI)
  fix nr ei
  assume r: "read_rotation kv = Inr (nr, ei)"
  let ?c = "(with_token_url c)
              \<lparr>access_token := Some na,
               refresh_token := if nr \<noteq> [] then Some nr else refresh_token c,
               expires_at := if ei \<noteq> 0 then JInt (now + ei) else expires_at c\<rparr>"
  have f: "tenant_id ?c = tenant_id c" "credential_id ?c = credential_id c"
    by (simp_all add: with_token_url_fields)
  have run: "refresh_access_token post now c
             = (None, ?c, Http (refresh_request (with_token_url c)) # save_tokens ?c)"
    using refresh_read_ok [OF assms(1-3) r, of now] assms(4) by simp
  have saved: "str_truthy (tenant_id c) \<longrightarrow>
      (\<exists>rec. Http (refresh_request (with_token_url c)) # save_tokens ?c
               = [Http (refresh_request (with_token_url c)),
                  DbSave (credential_id c) ha_TOOL_NAME (tenant_id c) rec]
         \<and> dict_get (credential_data rec) ''access_token'' = JStr na
         \<and> dict_get (credential_data rec) ''refresh_token''
              = JStr (if nr \<noteq> [] then nr else str_or_empty (refresh_token c))
         \<and> dict_get (credential_data rec) ''expires_at''
              = (if ei \<noteq> 0 then JInt (now + ei) else expires_at c))"
    using saved_bundle [of ?c] unfolding f by (auto simp: str_or_empty_def)
  have unsaved: "\<not> str_truthy (tenant_id c) \<longrightarrow>
      Http (refresh_request (with_token_url c)) # save_tokens ?c
        = [Http (refresh_request (with_token_url c))]"
    using unsaved_bundle [of ?c] unfolding f by simp
  show "\<exists>c' ev. refresh_access_token post now c = (None, c', ev)
               \<and> access_token c' = Some na
               \<and> refresh_token c' = (if nr \<noteq> [] then Some nr else refresh_token c)
               \<and> expires_at c' = (if ei \<noteq> 0 then JInt (now + ei) else expires_at c)
               \<and> (str_truthy (tenant_id c) \<longrightarrow>
                    (\<exists>rec. ev = [Http (refresh_request (with_token_url c)),
                                 DbSave (credential_id c) ha_TOOL_NAME (tenant_id c) rec]
                       \<and> dict_get (credential_data rec) ''access_token'' = JStr na
                       \<and> dict_get (credential_data rec) ''refresh_token''
                            = JStr (if nr \<noteq> [] then nr else str_or_empty (refresh_token c))
                       \<and> dict_get (credential_data rec) ''expires_at''
                            = (if ei \<noteq> 0 then JInt (now + ei) else expires_at c)))
               \<and> (\<not> str_truthy (tenant_id c) \<longrightarrow>
                    ev = [Http (refresh_request (with_token_url c))])"
    apply (rule exI [of _ ?c])
    apply (rule exI [of _ "Http (refresh_request (with_token_url c)) # save_tokens ?c"])
    using run saved unsaved by simp
next
  fix e
  assume "read_rotation kv = Inl e"
  then show "refresh_access_token post now c
              = (Some e, with_token_url c, [Http (refresh_request (with_token_url c))])"
    using refresh_read_raises [OF assms(1-3)] by simp
qed

theorem refresh_success_persists_witness:
  "refresh_possible ha_oauth
   \<and> refresh_answers (always (ok_response (JObj token_body))) ha_oauth token_body
   \<and> or_empty_strip (dict_get token_body ''access_token'') = Inr ''a1''
   \<and> read_rotation token_body = Inr ([], 3600)
   \<and> str_truthy (tenant_id ha_oauth)
   \<and> (\<exists>c' rec. refresh_access_token (always (ok_response (JObj token_body))) 50 ha_oauth
          = (None, c', [Http (refresh_request (with_token_url ha_oauth)),
                        DbSave ''home_assistant'' ''home_assistant'' (Some ''acme'') rec])
        \<and> access_token c' = Some ''a1''
        \<and> refresh_token c' = Some ''r0''
        \<and> expires_at c' = JInt 3650
        \<and> dict_get (credential_data rec) ''access_token'' = JStr ''a1''
        \<and> dict_get (credential_data rec) ''refresh_token'' = JStr ''r0''
        \<and> dict_get (credential_data rec) ''expires_at'' = JInt 3650)
   \<and> refresh_possible ha_no_tenant
   \<and> refresh_answers (always (ok_response (JObj token_body))) ha_no_tenant token_body
   \<and> (\<exists>c'. refresh_access_token (always (ok_response (JObj token_body))) 50 ha_no_tenant
          = (None, c', [Http (refresh_request (with_token_url ha_no_tenant))])
        \<and> access_token c' = Some ''a1'')
   \<and> refresh_answers (always (ok_response (JObj token_unreadable))) ha_oauth token_unreadable
   \<and> or_empty_strip (dict_get token_unreadable ''access_token'') = Inr ''a1''
   \<and> read_rotation token_unreadable = Inl ValueError
   \<and> refresh_access_token (always (ok_response (JObj token_unreadable))) 50 ha_oauth
        = (Some ValueError, with_token_url ha_oauth,
           [Http (refresh_request (with_token_url ha_oauth))])"
proof -
  have h1: "refresh_possible ha_oauth" by code_simp
  have h2: "refresh_answers (always (ok_response (JObj token_body))) ha_oauth token_body"
    by code_simp
  have h3: "or_empty_strip (dict_get token_body ''access_token'') = Inr ''a1''" by code_simp
  have h4: "''a1'' \<noteq> []" by simp
  have h5: "read_rotation token_body = Inr ([], 3600)" by code_simp
  have h6: "str_truthy (tenant_id ha_oauth)" by code_simp
  have n1: "refresh_possible ha_no_tenant" by code_simp
  have n2: "refresh_answers (always (ok_response (JObj token_body))) ha_no_tenant token_body"
    by code_simp
  have n6: "\<not> str_truthy (tenant_id ha_no_tenant)" by code_simp
  have g2: "refresh_answers (always (ok_response (JObj token_unreadable))) ha_oauth
              token_unreadable"
    by code_simp
  have g3: "or_empty_strip (dict_get token_unreadable ''access_token'') = Inr ''a1''"
    by code_simp
  have g4: "read_rotation token_unreadable = Inl ValueError" by code_simp
  have a: "refresh_token ha_oauth = Some ''r0''" "expires_at ha_oauth = JInt 100"
    "credential_id ha_oauth = ''home_assistant''"
    "tenant_id ha_oauth = Some ''acme''" "ha_TOOL_NAME = ''home_assistant''"
    by code_simp+
  have ok: "\<exists>c' rec. refresh_access_token (always (ok_response (JObj token_body))) 50 ha_oauth
          = (None, c', [Http (refresh_request (with_token_url ha_oauth)),
                        DbSave ''home_assistant'' ''home_assistant'' (Some ''acme'') rec])
        \<and> access_token c' = Some ''a1''
        \<and> refresh_token c' = Some ''r0''
        \<and> expires_at c' = JInt 3650
        \<and> dict_get (credential_data rec) ''access_token'' = JStr ''a1''
        \<and> dict_get (credential_data rec) ''refresh_token'' = JStr ''r0''
        \<and> dict_get (credential_data rec) ''expires_at'' = JInt 3650"
    using refresh_success_persists [OF h1 h2 h3 h4, of 50] h5 h6 a
    by (auto simp: str_or_empty_def)
  have none: "\<exists>c'. refresh_access_token (always (ok_response (JObj token_body))) 50 ha_no_tenant
          = (None, c', [Http (refresh_request (with_token_url ha_no_tenant))])
        \<and> access_token c' = Some ''a1''"
    using refresh_success_persists [OF n1 n2 h3 h4, of 50] h5 n6 by auto
  have bad: "refresh_access_token (always (ok_response (JObj token_unreadable))) 50 ha_oauth
        = (Some ValueError, with_token_url ha_oauth,
           [Http (refresh_request (with_token_url ha_oauth))])"
    using refresh_success_persists [OF h1 g2 g3 h4, of 50] g4 by blast
  show ?thesis using h1 h2 h3 h5 h6 n1 n2 g2 g3 g4 ok none bad by blast
qed

text \<open>
  C3 as stated fails: a connector without a tenant refreshes its access token and saves
  nothing.
\<close>

theorem refresh_success_persists_counterexample:
  "refresh_possible ha_no_tenant
   \<and> refresh_answers (always (ok_response (JObj token_body))) ha_no_tenant token_body
   \<and> dict_get token_body ''access_token'' = JStr ''a1''
   \<and> fst (refresh_access_token (always (ok_response (JObj token_body))) 50 ha_no_tenant) = None
   \<and> access_token (fst (snd (refresh_access_token
        (always (ok_response (JObj token_body))) 50 ha_no_tenant))) = Some ''a1''
   \<and> filter is_save (snd (snd (refresh_access_token
        (always (ok_response (JObj token_body))) 50 ha_no_tenant))) = []"
  by code_simp

lemma save_tokens_no_http: "filter is_http (save_tokens c) = []"
  by (simp add: save_tokens_def)

lemma refresh_one_request:
  assumes "refresh_possible c"
  shows "\<exists>e c' rest. refresh_access_token post now c
            = (e, c', Http (refresh_request (with_token_url c)) # rest)
          \<and> filter is_http rest = []"
  using assms
  by (auto simp: refresh_access_token_def refresh_possible_def Let_def save_tokens_no_http
           split: http_outcome.splits json_outcome.splits sum.splits)

text \<open>
  C4, as amended. \<open>_auth_header\<close> sends exactly one refresh request, before it returns,
  when the expiry is set and non-zero, an access token is held, the clock has reached
  the expiry less 60 seconds and a refresh is possible (a refresh token and an endpoint);
  when the expiry is unset or zero, or the clock is before the expiry less 60 seconds,
  it sends nothing, changes nothing and returns the header of the token it holds (the
  empty map when it holds none).
\<close>
theorem auth_header_refresh_gate:
  "(truthy (expires_at c) \<and> str_truthy (access_token c) \<and> py_int (expires_at c) = Inr ea
      \<and> now_ts \<ge> ea - 60 \<and> refresh_possible c
    \<longrightarrow> (\<exists>r c' rest. auth_header post now_ts now c
            = (r, c', Http (refresh_request (with_token_url c)) # rest)
          \<and> filter is_http rest = []
          \<and> (r = Inr (bearer c') \<or> (\<exists>e. r = Inl e))))
   \<and> ((\<not> truthy (expires_at c) \<or> (py_int (expires_at c) = Inr ea \<and> now_ts < ea - 60))
    \<longrightarrow> auth_header post now_ts now c = (Inr (bearer c), c, []))"
proof (intro conjI impI)
  assume a: "truthy (expires_at c) \<and> str_truthy (access_token c) \<and> py_int (expires_at c) = Inr ea
      \<and> now_ts \<ge> ea - 60 \<and> refresh_possible c"
  then obtain e c' rest where r: "refresh_access_token post now c
            = (e, c', Http (refresh_request (with_token_url c)) # rest)"
          "filter is_http rest = []"
    using refresh_one_request [of c post now] by blast
  show "\<exists>r c' rest. auth_header post now_ts now c
            = (r, c', Http (refresh_request (with_token_url c)) # rest)
          \<and> filter is_http rest = []
          \<and> (r = Inr (bearer c') \<or> (\<exists>e. r = Inl e))"
    using a r by (cases e) (simp_all add: auth_header_def)
next
  assume "\<not> truthy (expires_at c) \<or> (py_int (expires_at c) = Inr ea \<and> now_ts < ea - 60)"
  then show "auth_header post now_ts now c = (Inr (bearer c), c, [])"
    by (auto simp: auth_header_def)
qed

text \<open>
  C4 as stated fails: a connector that holds a refresh token but no access token is past
  its expiry, and \<open>_auth_header\<close> sends no refresh request and returns the empty map.
\<close>
theorem auth_header_refresh_gate_counterexample:
  "str_truthy (refresh_token ha_refresh_only)
   \<and> py_int (expires_at ha_refresh_only) = Inr 100
   \<and> (100 :: int) - 60 \<le> 1000
   \<and> auth_header (always (ok_response (JObj token_body))) 1000 1000 ha_refresh_only
       = (Inr [], ha_refresh_only, [])"
  by code_simp

theorem auth_header_refresh_gate_witness:
  "truthy (expires_at ha_oauth) \<and> str_truthy (access_token ha_oauth)
   \<and> py_int (expires_at ha_oauth) = Inr 100 \<and> (100 :: int) - 60 \<le> 70 \<and> refresh_possible ha_oauth
   \<and> (\<exists>r c' rest. auth_header (always (Raises ''timed out'')) 70 70 ha_oauth
            = (r, c', Http (refresh_request (with_token_url ha_oauth)) # rest)
          \<and> filter is_http rest = []
          \<and> (r = Inr (bearer c') \<or> (\<exists>e. r = Inl e)))
   \<and> (39 :: int) < 100 - 60
   \<and> auth_header (always (Raises ''timed out'')) 39 39 ha_oauth
        = (Inr (bearer ha_oauth), ha_oauth, [])
   \<and> bearer ha_oauth = [(''Authorization'', ''Bearer a0'')]"
proof -
  have h: "truthy (expires_at ha_oauth)" "str_truthy (access_token ha_oauth)"
    "py_int (expires_at ha_oauth) = Inr 100" "refresh_possible ha_oauth"
    "bearer ha_oauth = [(''Authorization'', ''Bearer a0'')]"
    by code_simp+
  show ?thesis
    using h auth_header_refresh_gate [of ha_oauth 100 70 "always (Raises ''timed out'')" 70]
      auth_header_refresh_gate [of ha_oauth 100 39 "always (Raises ''timed out'')" 39]
    by simp
qed

section \<open>Credential resolution\<close>

lemma blank_pair: "blank a \<Longrightarrow> blank b \<Longrightarrow> or_empty_strip (py_or a b) = Inr []"
  by (auto simp: blank_def or_empty_strip_def py_or_def split: json.splits)

lemma blank_strip: "blank a \<Longrightarrow> or_empty_strip a = Inr []"
  by (auto simp: blank_def or_empty_strip_def split: json.splits)

lemma text_strip: "text_or_absent a \<Longrightarrow> \<exists>s. or_empty_strip a = Inr s"
  by (auto simp: text_or_absent_def or_empty_strip_def split: json.splits)

lemma load_api_key_strict:
  assumes "no_usable_api_key (db (credential_id c) tool (tenant_id c))"
  shows "load_api_key tool missing vars True db env c
         = (Inl (RuntimeError missing), [DbGet (credential_id c) tool (tenant_id c)])"
  using assms
  by (auto simp: load_api_key_def no_usable_api_key_def Let_def blank_pair split: option.splits)

lemma ha_load_strict:
  assumes "no_record (db (credential_id c) ha_TOOL_NAME (tenant_id c))"
  shows "ha_load_credentials True db env c
         = (Inl (RuntimeError ha_missing), [DbGet (credential_id c) ha_TOOL_NAME (tenant_id c)])"
  using assms
  by (auto simp: ha_load_credentials_def ha_load_fallback_def no_record_def Let_def
           split: option.splits)

lemma new_connector_fields:
  "credential_id (new_connector cid tenant) = cid" "tenant_id (new_connector cid tenant) = tenant"
  by (simp_all add: new_connector_def)

text \<open>
  C5, as amended. In strict mode the constructor of the FMP, NewsAPI, Gemini and Polygon
  connectors raises the \<open>RuntimeError\<close> that names the tool whenever the store holds no
  usable record for (tool, credential id, tenant), and the constructor of the Home
  Assistant connector does so whenever the store holds no record or one without
  credential data. The only effect is the store read: no environment variable is read.
\<close>

theorem strict_mode_missing_credential:
  "(no_usable_api_key (db cid ''fmp'' tenant) \<longrightarrow>
      FmpConnector True db env cid tenant
        = (Inl (RuntimeError fmp_missing), [DbGet cid ''fmp'' tenant]))
   \<and> (no_usable_api_key (db cid ''newsapi'' tenant) \<longrightarrow>
      NewsApiConnector True db env cid tenant
        = (Inl (RuntimeError newsapi_missing), [DbGet cid ''newsapi'' tenant]))
   \<and> (no_usable_api_key (db cid ''gemini'' tenant) \<longrightarrow>
      GeminiConnector True db env cid tenant
        = (Inl (RuntimeError gemini_missing), [DbGet cid ''gemini'' tenant]))
   \<and> (no_usable_api_key (db cid ''polygon'' tenant) \<longrightarrow>
      PolygonConnector True db env cid tenant
        = (Inl (RuntimeError polygon_missing), [DbGet cid ''polygon'' tenant]))
   \<and> (no_record (db cid ''home_assistant'' tenant) \<longrightarrow>
      HomeAssistantConnector True db env cid tenant
        = (Inl (RuntimeError ha_missing), [DbGet cid ''home_assistant'' tenant]))
   \<and> take 3 fmp_missing = ''FMP'' \<and> take 7 newsapi_missing = ''NewsAPI''
   \<and> take 6 gemini_missing = ''Gemini'' \<and> take 7 polygon_missing = ''Polygon''
   \<and> take 14 ha_missing = ''Home Assistant''"
proof -
  have m: "take 3 fmp_missing = ''FMP''" "take 7 newsapi_missing = ''NewsAPI''"
    "take 6 gemini_missing = ''Gemini''" "take 7 polygon_missing = ''Polygon''"
    "take 14 ha_missing = ''Home Assistant''"
    by (simp_all add: fmp_missing_def newsapi_missing_def gemini_missing_def
          polygon_missing_def ha_missing_def)
  have k: "no_usable_api_key (db cid tool tenant) \<longrightarrow>
      load_api_key tool missing vars True db env (new_connector cid tenant)
        = (Inl (RuntimeError missing), [DbGet cid tool tenant])" for tool missing vars
    using load_api_key_strict [of db "new_connector cid tenant" tool missing vars env]
    by (simp add: new_connector_fields)
  have h: "no_record (db cid ''home_assistant'' tenant) \<longrightarrow>
      HomeAssistantConnector True db env cid tenant
        = (Inl (RuntimeError ha_missing), [DbGet cid ''home_assistant'' tenant])"
    unfolding HomeAssistantConnector_def
    by (intro impI, subst ha_load_strict) (simp_all add: ha_TOOL_NAME_def)
  show ?thesis
    using m k h
    by (simp add: FmpConnector_def NewsApiConnector_def GeminiConnector_def PolygonConnector_def)
qed

text \<open>
  C5 as stated fails for the Home Assistant connector: in strict mode, a record that
  holds the address and no token gives a connector with \<open>configured = False\<close>, not an
  error.
\<close>

theorem strict_mode_missing_credential_counterexample:
  "blank (dict_get url_only ''token'') \<and> blank (dict_get url_only ''access_token'')
   \<and> blank (dict_get url_only ''refresh_token'')
   \<and> HomeAssistantConnector True (store_of ''home_assistant'' url_only) no_env
        ''home_assistant'' (Some ''acme'')
      = (Inr \<lparr>credential_id = ''home_assistant'', tenant_id = Some ''acme'', configured = False,
              base_url = Some ''http://ha.local:8123'', token = Some [], access_token = Some [],
              refresh_token = Some [], client_id = Some [], client_secret = Some [],
              token_url = Some [], expires_at = JNull\<rparr>,
         [DbGet ''home_assistant'' ''home_assistant'' (Some ''acme'')])"
  by code_simp

theorem strict_mode_missing_credential_witness:
  "no_usable_api_key (store_of ''fmp'' [(''api_key'', JStr ''  '')] ''fmp'' ''fmp'' None)
   \<and> FmpConnector True (store_of ''fmp'' [(''api_key'', JStr ''  '')]) no_env ''fmp'' None
        = (Inl (RuntimeError fmp_missing), [DbGet ''fmp'' ''fmp'' None])
   \<and> no_usable_api_key (store_of ''fmp'' [(''api_key'', JStr ''  '')] ''fmp'' ''newsapi'' None)
   \<and> NewsApiConnector True (store_of ''fmp'' [(''api_key'', JStr ''  '')]) no_env ''fmp'' None
        = (Inl (RuntimeError newsapi_missing), [DbGet ''fmp'' ''newsapi'' None])
   \<and> no_usable_api_key (store_of ''fmp'' [(''api_key'', JStr ''  '')] ''fmp'' ''gemini'' None)
   \<and> GeminiConnector True (store_of ''fmp'' [(''api_key'', JStr ''  '')]) no_env ''fmp'' None
        = (Inl (RuntimeError gemini_missing), [DbGet ''fmp'' ''gemini'' None])
   \<and> no_usable_api_key (store_of ''fmp'' [(''api_key'', JStr ''  '')] ''fmp'' ''polygon'' None)
   \<and> PolygonConnector True (store_of ''fmp'' [(''api_key'', JStr ''  '')]) no_env ''fmp'' None
        = (Inl (RuntimeError polygon_missing), [DbGet ''fmp'' ''polygon'' None])
   \<and> no_record (store_of ''fmp'' [(''api_key'', JStr ''  '')] ''fmp'' ''home_assistant'' None)
   \<and> HomeAssistantConnector True (store_of ''fmp'' [(''api_key'', JStr ''  '')]) no_env ''fmp'' None
        = (Inl (RuntimeError ha_missing), [DbGet ''fmp'' ''home_assistant'' None])"
proof -
  have h: "no_usable_api_key (store_of ''fmp'' [(''api_key'', JStr ''  '')] ''fmp'' ''fmp'' None)"
    "no_usable_api_key (store_of ''fmp'' [(''api_key'', JStr ''  '')] ''fmp'' ''newsapi'' None)"
    "no_usable_api_key (store_of ''fmp'' [(''api_key'', JStr ''  '')] ''fmp'' ''gemini'' None)"
    "no_usable_api_key (store_of ''fmp'' [(''api_key'', JStr ''  '')] ''fmp'' ''polygon'' None)"
    "no_record (store_of ''fmp'' [(''api_key'', JStr ''  '')] ''fmp'' ''home_assistant'' None)"
    by code_simp+
  show ?thesis
    using h strict_mode_missing_credential
      [of "store_of ''fmp'' [(''api_key'', JStr ''  '')]" "''fmp''" None no_env]
    by simp
qed

lemma getenv_first_unset:
  "(\<forall>n \<in> set vars. \<not> str_truthy (env n)) \<Longrightarrow> fst (getenv_first env vars) = []"
  by (induction vars) (auto split: prod.splits)

lemma load_api_key_permissive:
  assumes "no_usable_api_key (db (credential_id c) tool (tenant_id c))"
    and "\<forall>n \<in> set vars. \<not> str_truthy (env n)"
  shows "\<exists>c' ev. load_api_key tool missing vars False db env c = (Inr c', ev) \<and> \<not> configured c'"
proof -
  obtain v ev where g: "getenv_first env vars = (v, ev)" by (cases "getenv_first env vars")
  with getenv_first_unset [OF assms(2)] have v: "v = []" by simp
  have s: "strip [] = []" by (simp add: strip_def)
  show ?thesis
    using assms(1) g v s
    by (auto simp: load_api_key_def no_usable_api_key_def Let_def blank_pair
             split: option.splits)
qed

lemma unusable_fmp:
  "unusable c \<Longrightarrow> quote http c symbol = (Inr (failure fmp_not_configured []), [])"
  "unusable c \<Longrightarrow> stock_news http c tickers limit = (Inr (failure fmp_not_configured []), [])"
  by (simp_all add: quote_def stock_news_def)

lemma unusable_newsapi:
  "unusable c \<Longrightarrow> search http c q language sort_by page_size
     = (Inr (failure newsapi_not_configured []), [])"
  "unusable c \<Longrightarrow> top_headlines http c country category q page_size
     = (Inr (failure newsapi_not_configured []), [])"
  by (simp_all add: search_def top_headlines_def)

lemma unusable_gemini:
  "unusable c \<Longrightarrow> generate_image http c prompt sample_count mime
     = (Inr (failure gemini_not_configured []), [])"
  "unusable c \<Longrightarrow> text_to_speech http c txt language_code voice_name audio_encoding rate pitch
     = (Inr (failure gemini_not_configured []), [])"
  by (simp_all add: generate_image_def text_to_speech_def)

lemma unusable_polygon:
  "unusable c \<Longrightarrow> prev_close http c ticker adjusted
     = (Inr (failure polygon_not_configured []), [])"
  "unusable c \<Longrightarrow> ticker_details http c ticker = (Inr (failure polygon_not_configured []), [])"
  by (simp_all add: prev_close_def ticker_details_def)

lemma unvalidated_ha:
  assumes "validate_configured c = Some err"
  shows "list_entities http now_ts now c = (Inr (failure err []), c, [])"
    and "get_state http now_ts now c entity_id = (Inr (failure err []), c, [])"
    and "call_service http now_ts now c domain service entity_id service_data
           = (Inr (failure err []), c, [])"
  using assms by (simp_all add: list_entities_def get_state_def call_service_def no_state_change_def)

lemma ha_load_record_no_secret:
  assumes "blank (dict_get d ''token'')" "blank (dict_get d ''access_token'')"
    "blank (dict_get d ''refresh_token'')" "text_or_absent (dict_get d ''base_url'')"
    "text_or_absent (dict_get d ''client_id'')" "text_or_absent (dict_get d ''client_secret'')"
    "text_or_absent (dict_get d ''token_url'')"
  shows "\<exists>c'. ha_load_record d c = Inr c' \<and> \<not> configured c'
           \<and> validate_configured c' \<in> {Some ''Home Assistant base_url missing'',
                                        Some ''Home Assistant token missing''}"
proof -
  obtain s1 s2 s3 s4 where s: "or_empty_strip (dict_get d ''base_url'') = Inr s1"
    "or_empty_strip (dict_get d ''client_id'') = Inr s2"
    "or_empty_strip (dict_get d ''client_secret'') = Inr s3"
    "or_empty_strip (dict_get d ''token_url'') = Inr s4"
    using assms(4-7) text_strip by meson
  show ?thesis
    using s assms(1-3)
    by (simp add: ha_load_record_def bind_exn_def blank_strip Let_def validate_configured_def
          str_truthy_def str_or_empty_def)
qed

lemma ha_fallback_unset:
  assumes "\<not> str_truthy (env ''HOME_ASSISTANT_BASE_URL'')" "\<not> str_truthy (env ''HOME_ASSISTANT_TOKEN'')"
  shows "\<exists>c' ev. ha_load_fallback False env c = (Inr c', ev) \<and> \<not> configured c'
           \<and> validate_configured c' = Some ''Home Assistant base_url missing''"
  using assms
  by (simp add: ha_load_fallback_def Let_def str_truthy_def strip_def rstrip_slash_def
        validate_configured_def str_or_empty_def)

lemma ha_load_permissive:
  assumes "ha_no_usable_record (db (credential_id c) ha_TOOL_NAME (tenant_id c))"
    and "\<not> str_truthy (env ''HOME_ASSISTANT_BASE_URL'')" "\<not> str_truthy (env ''HOME_ASSISTANT_TOKEN'')"
  shows "\<exists>c' ev. ha_load_credentials False db env c = (Inr c', ev) \<and> \<not> configured c'
           \<and> validate_configured c' \<in> {Some ''Home Assistant base_url missing'',
                                        Some ''Home Assistant token missing''}"
proof (cases "no_record (db (credential_id c) ha_TOOL_NAME (tenant_id c))")
  case True
  then show ?thesis
    using ha_fallback_unset [OF assms(2,3), of c]
    by (auto simp: ha_load_credentials_def no_record_def Let_def split: option.splits)
next
  case False
  then obtain r where r: "db (credential_id c) ha_TOOL_NAME (tenant_id c) = Some r"
     "credential_data r \<noteq> []"
    by (auto simp: no_record_def split: option.splits)
  with assms(1) ha_load_record_no_secret [of "credential_data r" c] show ?thesis
    by (auto simp: ha_load_credentials_def ha_no_usable_record_def Let_def)
qed

text \<open>
  C6, as amended. In permissive mode, when the store holds no usable record and the
  connector's environment variables are unset or empty, construction succeeds with
  \<open>configured = False\<close>, and afterwards every business operation, whatever its arguments
  and whatever the outside world would answer, returns the failure envelope with the
  connector's not-configured error, sends nothing and raises nothing. For the four
  API-key connectors no usable record means no record, a record without credential
  data, or one in which \<open>api_key\<close> and \<open>key\<close> are each absent, falsy or only white space.
  For the Home Assistant connector it means no record, a record without credential
  data, or one in which \<open>token\<close>, \<open>access_token\<close> and \<open>refresh_token\<close> are each absent,
  falsy or only white space and in which \<open>base_url\<close>, \<open>client_id\<close>, \<open>client_secret\<close> and
  \<open>token_url\<close> are each absent, falsy or text.
\<close>

theorem permissive_mode_unconfigured:
  "(no_usable_api_key (db cid ''fmp'' tenant) \<and> \<not> str_truthy (env ''FMP_API_KEY'') \<longrightarrow>
      (\<exists>c ev. FmpConnector False db env cid tenant = (Inr c, ev) \<and> \<not> configured c
         \<and> (\<forall>http symbol. quote http c symbol = (Inr (failure fmp_not_configured []), []))
         \<and> (\<forall>http tickers limit.
               stock_news http c tickers limit = (Inr (failure fmp_not_configured []), []))))
   \<and> (no_usable_api_key (db cid ''newsapi'' tenant) \<and> \<not> str_truthy (env ''NEWSAPI_KEY'') \<longrightarrow>
      (\<exists>c ev. NewsApiConnector False db env cid tenant = (Inr c, ev) \<and> \<not> configured c
         \<and> (\<forall>http q language sort_by page_size.
               search http c q language sort_by page_size
                 = (Inr (failure newsapi_not_configured []), []))
         \<and> (\<forall>http country category q page_size.
               top_headlines http c country category q page_size
                 = (Inr (failure newsapi_not_configured []), []))))
   \<and> (no_usable_api_key (db cid ''gemini'' tenant) \<and> \<not> str_truthy (env ''GEMINI_API_KEY'')
        \<and> \<not> str_truthy (env ''GOOGLE_API_KEY'') \<longrightarrow>
      (\<exists>c ev. GeminiConnector False db env cid tenant = (Inr c, ev) \<and> \<not> configured c
         \<and> (\<forall>http prompt sample_count mime.
               generate_image http c prompt sample_count mime
                 = (Inr (failure gemini_not_configured []), []))
         \<and> (\<forall>http txt language_code voice_name audio_encoding rate pitch.
               text_to_speech http c txt language_code voice_name audio_encoding rate pitch
                 = (Inr (failure gemini_not_configured []), []))))
   \<and> (no_usable_api_key (db cid ''polygon'' tenant) \<and> \<not> str_truthy (env ''POLYGON_API_KEY'') \<longrightarrow>
      (\<exists>c ev. PolygonConnector False db env cid tenant = (Inr c, ev) \<and> \<not> configured c
         \<and> (\<forall>http ticker adjusted.
               prev_close http c ticker adjusted = (Inr (failure polygon_not_configured []), []))
         \<and> (\<forall>http ticker.
               ticker_details http c ticker = (Inr (failure polygon_not_configured []), []))))
   \<and> (ha_no_usable_record (db cid ''home_assistant'' tenant)
        \<and> \<not> str_truthy (env ''HOME_ASSISTANT_BASE_URL'')
        \<and> \<not> str_truthy (env ''HOME_ASSISTANT_TOKEN'') \<longrightarrow>
      (\<exists>c ev err. HomeAssistantConnector False db env cid tenant = (Inr c, ev) \<and> \<not> configured c
         \<and> (err = ''Home Assistant base_url missing'' \<or> err = ''Home Assistant token missing'')
         \<and> (\<forall>http now_ts now. list_entities http now_ts now c = (Inr (failure err []), c, []))
         \<and> (\<forall>http now_ts now entity_id.
               get_state http now_ts now c entity_id = (Inr (failure err []), c, []))
         \<and> (\<forall>http now_ts now domain service entity_id service_data.
               call_service http now_ts now c domain service entity_id service_data
                 = (Inr (failure err []), c, []))))
   \<and> failure msg [] = [(''success'', JBool False), (''error'', JStr msg)]"
proof -
  have k: "no_usable_api_key (db cid tool tenant) \<and> (\<forall>n \<in> set vars. \<not> str_truthy (env n)) \<longrightarrow>
      (\<exists>c ev. load_api_key tool missing vars False db env (new_connector cid tenant) = (Inr c, ev)
         \<and> \<not> configured c \<and> unusable c)" for tool missing vars
    using load_api_key_permissive [of db "new_connector cid tenant" tool vars env missing]
    by (auto simp: new_connector_fields unusable_def)
  have 1: "no_usable_api_key (db cid ''fmp'' tenant) \<and> \<not> str_truthy (env ''FMP_API_KEY'') \<longrightarrow>
      (\<exists>c ev. FmpConnector False db env cid tenant = (Inr c, ev) \<and> \<not> configured c
         \<and> (\<forall>http symbol. quote http c symbol = (Inr (failure fmp_not_configured []), []))
         \<and> (\<forall>http tickers limit.
               stock_news http c tickers limit = (Inr (failure fmp_not_configured []), [])))"
    using k [of "''fmp''" "[''FMP_API_KEY'']" fmp_missing]
    by (auto simp: FmpConnector_def unusable_fmp)
  have 2: "no_usable_api_key (db cid ''newsapi'' tenant) \<and> \<not> str_truthy (env ''NEWSAPI_KEY'') \<longrightarrow>
      (\<exists>c ev. NewsApiConnector False db env cid tenant = (Inr c, ev) \<and> \<not> configured c
         \<and> (\<forall>http q language sort_by page_size.
               search http c q language sort_by page_size
                 = (Inr (failure newsapi_not_configured []), []))
         \<and> (\<forall>http country category q page_size.
               top_headlines http c country category q page_size
                 = (Inr (failure newsapi_not_configured []), [])))"
    using k [of "''newsapi''" "[''NEWSAPI_KEY'']" newsapi_missing]
    by (auto simp: NewsApiConnector_def unusable_newsapi)
  have 3: "no_usable_api_key (db cid ''gemini'' tenant) \<and> \<not> str_truthy (env ''GEMINI_API_KEY'')
        \<and> \<not> str_truthy (env ''GOOGLE_API_KEY'') \<longrightarrow>
      (\<exists>c ev. GeminiConnector False db env cid tenant = (Inr c, ev) \<and> \<not> configured c
         \<and> (\<forall>http prompt sample_count mime.
               generate_image http c prompt sample_count mime
                 = (Inr (failure gemini_not_configured []), []))
         \<and> (\<forall>http txt language_code voice_name audio_encoding rate pitch.
               text_to_speech http c txt language_code voice_name audio_encoding rate pitch
                 = (Inr (failure gemini_not_configured []), [])))"
    using k [of "''gemini''" "[''GEMINI_API_KEY'', ''GOOGLE_API_KEY'']" gemini_missing]
    by (auto simp: GeminiConnector_def unusable_gemini)
  have 4: "no_usable_api_key (db cid ''polygon'' tenant) \<and> \<not> str_truthy (env ''POLYGON_API_KEY'') \<longrightarrow>
      (\<exists>c ev. PolygonConnector False db env cid tenant = (Inr c, ev) \<and> \<not> configured c
         \<and> (\<forall>http ticker adjusted.
               prev_close http c ticker adjusted = (Inr (failure polygon_not_configured []), []))
         \<and> (\<forall>http ticker.
               ticker_details http c ticker = (Inr (failure polygon_not_configured []), [])))"
    using k [of "''polygon''" "[''POLYGON_API_KEY'']" polygon_missing]
    by (auto simp: PolygonConnector_def unusable_polygon)
  have 5: "ha_no_usable_record (db cid ''home_assistant'' tenant)
        \<and> \<not> str_truthy (env ''HOME_ASSISTANT_BASE_URL'')
        \<and> \<not> str_truthy (env ''HOME_ASSISTANT_TOKEN'') \<longrightarrow>
      (\<exists>c ev err. HomeAssistantConnector False db env cid tenant = (Inr c, ev) \<and> \<not> configured c
         \<and> (err = ''Home Assistant base_url missing'' \<or> err = ''Home Assistant token missing'')
         \<and> (\<forall>http now_ts now. list_entities http now_ts now c = (Inr (failure err []), c, []))
         \<and> (\<forall>http now_ts now entity_id.
               get_state http now_ts now c entity_id = (Inr (failure err []), c, []))
         \<and> (\<forall>http now_ts now domain service entity_id service_data.
               call_service http now_ts now c domain service entity_id service_data
                 = (Inr (failure err []), c, [])))"
  proof (intro impI)
    assume a: "ha_no_usable_record (db cid ''home_assistant'' tenant)
        \<and> \<not> str_truthy (env ''HOME_ASSISTANT_BASE_URL'')
        \<and> \<not> str_truthy (env ''HOME_ASSISTANT_TOKEN'')"
    let ?c0 = "\<lparr>credential_id = cid, tenant_id = tenant, configured = False,
        base_url = None, token = None, access_token = None, refresh_token = None,
        client_id = None, client_secret = None, token_url = None, expires_at = JNull\<rparr>"
    from a obtain c ev where c: "ha_load_credentials False db env ?c0 = (Inr c, ev)"
        "\<not> configured c"
        "validate_configured c \<in> {Some ''Home Assistant base_url missing'',
                                    Some ''Home Assistant token missing''}"
      using ha_load_permissive [of db ?c0 env] by (auto simp: ha_TOOL_NAME_def)
    then obtain err where e: "validate_configured c = Some err"
        "err = ''Home Assistant base_url missing'' \<or> err = ''Home Assistant token missing''"
      by auto
    show "\<exists>c ev err. HomeAssistantConnector False db env cid tenant = (Inr c, ev) \<and> \<not> configured c
         \<and> (err = ''Home Assistant base_url missing'' \<or> err = ''Home Assistant token missing'')
         \<and> (\<forall>http now_ts now. list_entities http now_ts now c = (Inr (failure err []), c, []))
         \<and> (\<forall>http now_ts now entity_id.
               get_state http now_ts now c entity_id = (Inr (failure err []), c, []))
         \<and> (\<forall>http now_ts now domain service entity_id service_data.
               call_service http now_ts now c domain service entity_id service_data
                 = (Inr (failure err []), c, []))"
      using c(1,2) e unvalidated_ha [OF e(1)]
      unfolding HomeAssistantConnector_def by blast
  qed
  have 6: "failure msg [] = [(''success'', JBool False), (''error'', JStr msg)]"
    by (simp add: failure_def)
  show ?thesis using 1 2 3 4 5 6 by blast
qed

text \<open>
  C6 as stated fails for the Home Assistant connector: in permissive mode, with no
  environment variable set, a record that holds no token and a numeric \<open>client_id\<close>
  makes the constructor raise \<open>AttributeError\<close>.
\<close>

theorem permissive_mode_unconfigured_counterexample:
  "blank (dict_get numeric_client ''token'')
   \<and> blank (dict_get numeric_client ''access_token'')
   \<and> blank (dict_get numeric_client ''refresh_token'')
   \<and> no_env ''HOME_ASSISTANT_BASE_URL'' = None
   \<and> no_env ''HOME_ASSISTANT_TOKEN'' = None
   \<and> HomeAssistantConnector False (store_of ''home_assistant'' numeric_client) no_env
         ''home_assistant'' (Some ''acme'')
       = (Inl AttributeError, [DbGet ''home_assistant'' ''home_assistant'' (Some ''acme'')])"
  by code_simp

theorem permissive_mode_unconfigured_witness:
  "(no_usable_api_key ((store_of ''home_assistant'' url_only) ''c1'' ''fmp'' None) \<and> \<not> str_truthy (no_env ''FMP_API_KEY'') \<and>
      (\<exists>c ev. FmpConnector False (store_of ''home_assistant'' url_only) no_env ''c1'' None = (Inr c, ev) \<and> \<not> configured c
         \<and> (\<forall>http symbol. quote http c symbol = (Inr (failure fmp_not_configured []), []))
         \<and> (\<forall>http tickers limit.
               stock_news http c tickers limit = (Inr (failure fmp_not_configured []), []))))
   \<and> (no_usable_api_key ((store_of ''home_assistant'' url_only) ''c1'' ''newsapi'' None) \<and> \<not> str_truthy (no_env ''NEWSAPI_KEY'') \<and>
      (\<exists>c ev. NewsApiConnector False (store_of ''home_assistant'' url_only) no_env ''c1'' None = (Inr c, ev) \<and> \<not> configured c
         \<and> (\<forall>http q language sort_by page_size.
               search http c q language sort_by page_size
                 = (Inr (failure newsapi_not_configured []), []))
         \<and> (\<forall>http country category q page_size.
               top_headlines http c country category q page_size
                 = (Inr (failure newsapi_not_configured []), []))))
   \<and> (no_usable_api_key ((store_of ''home_assistant'' url_only) ''c1'' ''gemini'' None) \<and> \<not> str_truthy (no_env ''GEMINI_API_KEY'')
        \<and> \<not> str_truthy (no_env ''GOOGLE_API_KEY'') \<and>
      (\<exists>c ev. GeminiConnector False (store_of ''home_assistant'' url_only) no_env ''c1'' None = (Inr c, ev) \<and> \<not> configured c
         \<and> (\<forall>http prompt sample_count mime.
               generate_image http c prompt sample_count mime
                 = (Inr (failure gemini_not_configured []), []))
         \<and> (\<forall>http txt language_code voice_name audio_encoding rate pitch.
               text_to_speech http c txt language_code voice_name audio_encoding rate pitch
                 = (Inr (failure gemini_not_configured []), []))))
   \<and> (no_usable_api_key ((store_of ''home_assistant'' url_only) ''c1'' ''polygon'' None) \<and> \<not> str_truthy (no_env ''POLYGON_API_KEY'') \<and>
      (\<exists>c ev. PolygonConnector False (store_of ''home_assistant'' url_only) no_env ''c1'' None = (Inr c, ev) \<and> \<not> configured c
         \<and> (\<forall>http ticker adjusted.
               prev_close http c ticker adjusted = (Inr (failure polygon_not_configured []), []))
         \<and> (\<forall>http ticker.
               ticker_details http c ticker = (Inr (failure polygon_not_configured []), []))))
   \<and> (ha_no_usable_record ((store_of ''home_assistant'' url_only) ''c1'' ''home_assistant'' None)
        \<and> \<not> str_truthy (no_env ''HOME_ASSISTANT_BASE_URL'')
        \<and> \<not> str_truthy (no_env ''HOME_ASSISTANT_TOKEN'') \<and>
      (\<exists>c ev err. HomeAssistantConnector False (store_of ''home_assistant'' url_only) no_env ''c1'' None = (Inr c, ev) \<and> \<not> configured c
         \<and> (err = ''Home Assistant base_url missing'' \<or> err = ''Home Assistant token missing'')
         \<and> (\<forall>http now_ts now. list_entities http now_ts now c = (Inr (failure err []), c, []))
         \<and> (\<forall>http now_ts now entity_id.
               get_state http now_ts now c entity_id = (Inr (failure err []), c, []))
         \<and> (\<forall>http now_ts now domain service entity_id service_data.
               call_service http now_ts now c domain service entity_id service_data
                 = (Inr (failure err []), c, []))))"
proof -
  have h1: "no_usable_api_key ((store_of ''home_assistant'' url_only) ''c1'' ''fmp'' None) \<and> \<not> str_truthy (no_env ''FMP_API_KEY'')"
    by code_simp
  have h2: "no_usable_api_key ((store_of ''home_assistant'' url_only) ''c1'' ''newsapi'' None) \<and> \<not> str_truthy (no_env ''NEWSAPI_KEY'')"
    by code_simp
  have h3: "no_usable_api_key ((store_of ''home_assistant'' url_only) ''c1'' ''gemini'' None) \<and> \<not> str_truthy (no_env ''GEMINI_API_KEY'') \<and> \<not> str_truthy (no_env ''GOOGLE_API_KEY'')"
    by code_simp
  have h4: "no_usable_api_key ((store_of ''home_assistant'' url_only) ''c1'' ''polygon'' None) \<and> \<not> str_truthy (no_env ''POLYGON_API_KEY'')"
    by code_simp
  have h5: "ha_no_usable_record ((store_of ''home_assistant'' url_only) ''c1'' ''home_assistant'' None) \<and> \<not> str_truthy (no_env ''HOME_ASSISTANT_BASE_URL'') \<and> \<not> str_truthy (no_env ''HOME_ASSISTANT_TOKEN'')"
    by code_simp
  show ?thesis
    using h1 h2 h3 h4 h5
      permissive_mode_unconfigured [of "store_of ''home_assistant'' url_only" "''c1''" None no_env "[]"]
    by blast
qed

text \<open>
  C9. When the store record for tool \<open>fmp\<close> holds \<open>api_key = "  secret123  "\<close>, the FMP
  connector is constructed, in either mode and whatever the environment, with the
  trimmed key \<open>secret123\<close> and \<open>configured = True\<close>, and its \<open>quote\<close> with an empty symbol
  returns the envelope \<open>{success: False, error: "symbol is required"}\<close> without sending a
  request.
\<close>

theorem fmp_trimmed_key_and_empty_symbol:
  assumes "db cid ''fmp'' tenant = Some r"
    and "dict_get (credential_data r) ''api_key'' = JStr ''  secret123  ''"
  shows "\<exists>c. FmpConnector strict db env cid tenant = (Inr c, [DbGet cid ''fmp'' tenant])
           \<and> api_key c = Some ''secret123'' \<and> configured c
           \<and> (\<forall>http. quote http c (Some [])
                 = (Inr [(''success'', JBool False), (''error'', JStr ''symbol is required'')], []))"
proof -
  have s: "strip ''  secret123  '' = ''secret123''" "strip [] = []" by code_simp+
  from assms(2) have d: "credential_data r \<noteq> []" by (auto simp: dict_get_def)
  show ?thesis
    using assms d s
    by (simp add: FmpConnector_def load_api_key_def new_connector_def Let_def py_or_def
          or_empty_strip_def quote_def unusable_def str_truthy_def str_or_empty_def failure_def)
qed

theorem fmp_trimmed_key_and_empty_symbol_witness:
  "store_of ''fmp'' [(''api_key'', JStr ''  secret123  '')] ''fmp'' ''fmp'' (Some ''acme'')
     = Some \<lparr>credential_type = ''api_key'',
             credential_data = [(''api_key'', JStr ''  secret123  '')], encrypted = False\<rparr>
   \<and> (\<exists>c. FmpConnector True (store_of ''fmp'' [(''api_key'', JStr ''  secret123  '')]) no_env
              ''fmp'' (Some ''acme'') = (Inr c, [DbGet ''fmp'' ''fmp'' (Some ''acme'')])
           \<and> api_key c = Some ''secret123'' \<and> configured c
           \<and> (\<forall>http. quote http c (Some [])
                 = (Inr [(''success'', JBool False), (''error'', JStr ''symbol is required'')], [])))"
proof -
  have h1: "store_of ''fmp'' [(''api_key'', JStr ''  secret123  '')] ''fmp'' ''fmp'' (Some ''acme'')
     = Some \<lparr>credential_type = ''api_key'',
             credential_data = [(''api_key'', JStr ''  secret123  '')], encrypted = False\<rparr>"
    by (simp add: store_of_def)
  have h2: "dict_get (credential_data \<lparr>credential_type = ''api_key'',
             credential_data = [(''api_key'', JStr ''  secret123  '')], encrypted = False\<rparr>)
             ''api_key'' = JStr ''  secret123  ''"
    by (simp add: dict_get_def)
  show ?thesis
    using h1 h2
      fmp_trimmed_key_and_empty_symbol
        [of "store_of ''fmp'' [(''api_key'', JStr ''  secret123  '')]" "''fmp''" "Some ''acme''"
            "\<lparr>credential_type = ''api_key'',
              credential_data = [(''api_key'', JStr ''  secret123  '')], encrypted = False\<rparr>"
            True no_env]
    by simp
qed

section \<open>Counts sent upstream\<close>

lemma clamp_count_eq:
  "1 \<le> hi \<Longrightarrow> max 1 (min hi (int_or x d)) = clamp_count 1 hi d x"
  "1 \<le> hi \<Longrightarrow> min hi (max 1 (int_or x d)) = clamp_count 1 hi d x"
  by (auto simp: clamp_count_def int_or_def Let_def split: option.splits)

text \<open>
  C10. Each of the four operations, once past its configuration and argument checks,
  sends exactly one request, and the count in it is the input, replaced by the default
  when it is \<open>None\<close> or zero, brought into the range: \<open>limit\<close> into 1..50 (default 10) for
  \<open>stock_news\<close>, \<open>pageSize\<close> into 1..100 (default 20) for \<open>search\<close> and \<open>top_headlines\<close>,
  \<open>sampleCount\<close> into 1..4 (default 1) for \<open>generate_image\<close>.
\<close>

theorem count_clamped_before_request:
  "(\<not> unusable c \<and> strip (str_or_empty tickers) \<noteq> [] \<longrightarrow>
      (\<exists>rq. snd (stock_news http c tickers limit) = [Http rq]
         \<and> dict_get (rq_params rq) ''limit'' = JInt (clamp_count 1 50 10 limit)))
   \<and> (\<not> unusable c \<and> strip (str_or_empty q) \<noteq> [] \<longrightarrow>
      (\<exists>rq. snd (search http c q language sort_by page_size) = [Http rq]
         \<and> dict_get (rq_params rq) ''pageSize'' = JInt (clamp_count 1 100 20 page_size)))
   \<and> (\<not> unusable c \<longrightarrow>
      (\<exists>rq. snd (top_headlines http c country category q' page_size) = [Http rq]
         \<and> dict_get (rq_params rq) ''pageSize'' = JInt (clamp_count 1 100 20 page_size)))
   \<and> (\<not> unusable c \<and> strip (str_or_empty prompt) \<noteq> [] \<longrightarrow>
      (\<exists>rq body ps. snd (generate_image http c prompt sample_count mime) = [Http rq]
         \<and> rq_json rq = Some (JObj body)
         \<and> dict_get body ''imageParameters'' = JObj ps
         \<and> dict_get ps ''sampleCount'' = JInt (clamp_count 1 4 1 sample_count)))
   \<and> 1 \<le> clamp_count 1 50 10 limit \<and> clamp_count 1 50 10 limit \<le> 50
   \<and> 1 \<le> clamp_count 1 100 20 page_size \<and> clamp_count 1 100 20 page_size \<le> 100
   \<and> 1 \<le> clamp_count 1 4 1 sample_count \<and> clamp_count 1 4 1 sample_count \<le> 4"
proof -
  have 1: "\<not> unusable c \<and> strip (str_or_empty tickers) \<noteq> [] \<longrightarrow>
      (\<exists>rq. snd (stock_news http c tickers limit) = [Http rq]
         \<and> dict_get (rq_params rq) ''limit'' = JInt (clamp_count 1 50 10 limit))"
    by (auto simp: stock_news_def Let_def get_request_def dict_get_def clamp_count_eq
             split: json_outcome.splits sum.splits)
  have 2: "\<not> unusable c \<and> strip (str_or_empty q) \<noteq> [] \<longrightarrow>
      (\<exists>rq. snd (search http c q language sort_by page_size) = [Http rq]
         \<and> dict_get (rq_params rq) ''pageSize'' = JInt (clamp_count 1 100 20 page_size))"
    by (auto simp: search_def Let_def get_request_def dict_get_def clamp_count_eq
             split: json_outcome.splits sum.splits)
  have 3: "\<not> unusable c \<longrightarrow>
      (\<exists>rq. snd (top_headlines http c country category q' page_size) = [Http rq]
         \<and> dict_get (rq_params rq) ''pageSize'' = JInt (clamp_count 1 100 20 page_size))"
    by (auto simp: top_headlines_def Let_def get_request_def dict_get_def clamp_count_eq
             split: json_outcome.splits sum.splits split del: if_split)
  have 4: "\<not> unusable c \<and> strip (str_or_empty prompt) \<noteq> [] \<longrightarrow>
      (\<exists>rq body ps. snd (generate_image http c prompt sample_count mime) = [Http rq]
         \<and> rq_json rq = Some (JObj body)
         \<and> dict_get body ''imageParameters'' = JObj ps
         \<and> dict_get ps ''sampleCount'' = JInt (clamp_count 1 4 1 sample_count))"
    by (auto simp: generate_image_def Let_def post_json_def dict_get_def clamp_count_eq
             split: json_outcome.splits sum.splits)
  have 5: "1 \<le> hi \<Longrightarrow> 1 \<le> clamp_count 1 hi d x \<and> clamp_count 1 hi d x \<le> hi" for hi d x
    by (auto simp: clamp_count_def Let_def)
  show ?thesis
    using 1 2 3 4 5 [of 50 10 limit] 5 [of 100 20 page_size] 5 [of 4 1 sample_count]
    by simp
qed

theorem count_clamped_before_request_witness:
  "\<not> unusable keyed \<and> strip (str_or_empty (Some ''AAPL'')) \<noteq> []
   \<and> (\<exists>rq. snd (stock_news (always (Raises ''down'')) keyed (Some ''AAPL'') (Some 500)) = [Http rq]
         \<and> dict_get (rq_params rq) ''limit'' = JInt 50)
   \<and> (\<exists>rq. snd (search (always (Raises ''down'')) keyed (Some ''AAPL'') ''en'' ''publishedAt''
                   (Some (- 3))) = [Http rq]
         \<and> dict_get (rq_params rq) ''pageSize'' = JInt 1)
   \<and> (\<exists>rq. snd (top_headlines (always (Raises ''down'')) keyed ''us'' None None (Some (- 3)))
               = [Http rq]
         \<and> dict_get (rq_params rq) ''pageSize'' = JInt 1)
   \<and> (\<exists>rq body ps. snd (generate_image (always (Raises ''down'')) keyed (Some ''AAPL'') None
                        ''image/png'') = [Http rq]
         \<and> rq_json rq = Some (JObj body)
         \<and> dict_get body ''imageParameters'' = JObj ps
         \<and> dict_get ps ''sampleCount'' = JInt 1)"
proof -
  have h: "\<not> unusable keyed" "strip (str_or_empty (Some ''AAPL'')) \<noteq> []" by code_simp+
  have c: "clamp_count 1 50 10 (Some 500) = 50" "clamp_count 1 100 20 (Some (- 3)) = 1"
    "clamp_count 1 4 1 None = 1" by code_simp+
  show ?thesis
    using h
      count_clamped_before_request [of keyed "Some ''AAPL''" "always (Raises ''down'')"
        "Some 500" "Some ''AAPL''" "''en''" "''publishedAt''" "Some (- 3)" "''us''" None None
        "Some ''AAPL''" None "''image/png''"]
    unfolding c by simp
qed

section \<open>Result envelopes\<close>






























end
